theory Spec2Isabelle
  imports Main
begin

section \<open>The MySQL tracing plugin (mysql.ts) as a shallow embedding\<close>

text \<open>
  The plugin of \<^verbatim>\<open>plugins/node/opentelemetry-plugin-mysql/src/mysql.ts\<close> replaces
  functions of the mysql driver by closures that open and close tracing spans.
  JavaScript function values are first-order data here: every closure the plugin
  builds is a constructor of \<open>fn\<close> holding exactly the variables the closure
  captures, and \<open>call\<close> runs a closure on a \<open>this\<close> value, an argument list and
  the program state. Functions the plugin does not define (the driver's own
  functions and the callbacks its callers pass in) are \<open>Native\<close>; what they do is
  a parameter of the model.
\<close>

subsection \<open>Values and closures\<close>

text \<open>
  \<open>site\<close> is the place a shimmer wrap was installed at: a property of a heap
  object, or a slot of an \<^verbatim>\<open>arguments\<close> object (\<^verbatim>\<open>shimmer.wrap(arguments, 1, ...)\<close>).
\<close>

datatype site = Prop nat string | ArgSlot nat

datatype val =
    Undefined
  | Null
  | Boolean bool
  | Number int
  | String string
  | Array "val list"
  | Object nat
  | SpanRef nat
  | Function fn
and fn =
    Native nat
  | Shimmed nat site fn fn
  | CreateConnectionFn fn
  | CreatePoolFn fn
  | CreatePoolClusterFn fn
  | GetConnectionFn val fn
  | GetConnectionCallbackFn val
  | QueryFn val fn
  | CallbackQueryFn nat fn
  | OnErrorFn nat
  | OnEndFn nat

text \<open>
  \<open>Shimmed i site original f\<close> is the function \<open>f\<close> that a wrapper returned, after
  shimmer marked it: \<^verbatim>\<open>__wrapped = true\<close>, \<^verbatim>\<open>__original = original\<close>, and an
  \<^verbatim>\<open>__unwrap\<close> that restores \<open>original\<close> at \<open>site\<close>. The number \<open>i\<close> is the
  identity of the function object (shimmer compares with \<^verbatim>\<open>===\<close>).
  The other constructors are the closures of mysql.ts, named after the inner
  function each \<^verbatim>\<open>_patch...\<close> method returns; \<open>OnErrorFn\<close> and \<open>OnEndFn\<close> are the
  two listeners of the streaming branch of \<^verbatim>\<open>query\<close>.
\<close>

datatype thrown = TypeError | Thrown val

datatype outcome = Return val | Throw thrown

fun truthy :: "val \<Rightarrow> bool" where
  "truthy Undefined = False"
| "truthy Null = False"
| "truthy (Boolean b) = b"
| "truthy (Number n) = (n \<noteq> 0)"
| "truthy (String s) = (s \<noteq> [])"
| "truthy (Array vs) = True"
| "truthy (Object r) = True"
| "truthy (SpanRef i) = True"
| "truthy (Function f) = True"

fun is_function :: "val \<Rightarrow> bool" where
  "is_function (Function f) = True"
| "is_function v = False"

fun isArray :: "val \<Rightarrow> bool" where
  "isArray (Array vs) = True"
| "isArray v = False"

text \<open>\<^verbatim>\<open>arguments[i]\<close>: \<^verbatim>\<open>undefined\<close> beyond the arguments passed.\<close>

definition arg :: "nat \<Rightarrow> val list \<Rightarrow> val" where
  "arg i args = (if i < length args then args ! i else Undefined)"

subsection \<open>Program state\<close>

datatype CanonicalCode = OK | UNKNOWN

datatype SpanKind = INTERNAL | SERVER | CLIENT | PRODUCER | CONSUMER

record status =
  code :: CanonicalCode
  message :: "val option"

record span =
  name :: val
  kind :: SpanKind
  attributes :: "string \<rightharpoonup> val"
  status :: "status option"
  ends :: nat

type_synonym heap = "nat \<Rightarrow> string \<Rightarrow> val"

text \<open>
  The state holds the heap of objects (a property that is absent reads as
  \<^verbatim>\<open>undefined\<close>), the two plugin fields \<^verbatim>\<open>_enabled\<close> and \<^verbatim>\<open>_moduleExports\<close>, the
  spans the tracer has started (a span handle is its index; \<open>ends\<close> counts the
  calls of \<^verbatim>\<open>span.end()\<close>), the listeners registered on event emitters, the log
  of calls made to native functions, and the counter that numbers function
  objects made by shimmer. The debug logger is write-only and is left out.
\<close>

record state =
  heap :: heap
  enabled :: bool
  moduleExports :: val
  spans :: "span list"
  listeners :: "(nat \<times> string \<times> fn) list"
  calls :: "(nat \<times> val \<times> val list) list"
  next_id :: nat

text \<open>
  The collaborators of the plugin. \<open>native n this args h\<close> is what the native
  function \<open>n\<close> returns or throws and the heap it leaves; native functions do not
  call back synchronously (the driver delivers callbacks and events on a later
  turn of the event loop, section 5 of the specification). \<open>format\<close> is the
  module's statement-formatting function \<^verbatim>\<open>(text, values) -> renderedText\<close>;
  \<open>getSpanName\<close> and \<open>getConnectionAttributes\<close> are the two helpers of
  \<^verbatim>\<open>./utils\<close> whose results the plugin only passes on to the tracer.
\<close>

record env =
  native :: "nat \<Rightarrow> val \<Rightarrow> val list \<Rightarrow> heap \<Rightarrow> outcome \<times> heap"
  format :: "val \<Rightarrow> val \<Rightarrow> val"
  getSpanName :: "val \<Rightarrow> val"
  getConnectionAttributes :: "heap \<Rightarrow> val \<Rightarrow> string \<rightharpoonup> val"

text \<open>Reading a property; a value that is not a heap object has none of the
  properties the plugin reads.\<close>

definition get_prop :: "state \<Rightarrow> val \<Rightarrow> string \<Rightarrow> val" where
  "get_prop s v p = (case v of Object r \<Rightarrow> heap s r p | _ \<Rightarrow> Undefined)"

definition set_prop :: "nat \<Rightarrow> string \<Rightarrow> val \<Rightarrow> state \<Rightarrow> state" where
  "set_prop r p v s = s\<lparr>heap := (heap s)(r := (heap s r)(p := v))\<rparr>"

subsection \<open>shimmer and isWrapped\<close>

text \<open>
  The shimmer package and \<^verbatim>\<open>isWrapped\<close> of @opentelemetry/core are external
  libraries. \<^verbatim>\<open>shimmer.wrap(nodule, name, wrapper)\<close> does nothing unless
  \<^verbatim>\<open>nodule[name]\<close> is a function; otherwise it stores \<^verbatim>\<open>wrapper(original)\<close>,
  marked, at \<^verbatim>\<open>nodule[name]\<close>. It does not look at the marker of the function
  it replaces. \<^verbatim>\<open>shimmer.unwrap(nodule, name)\<close> runs the \<^verbatim>\<open>__unwrap\<close> of a marked
  \<^verbatim>\<open>nodule[name]\<close> and does nothing otherwise; \<^verbatim>\<open>__unwrap\<close> restores the
  original at the site of the wrap if the marked function is still there.
\<close>

definition shimmer_wrap :: "val \<Rightarrow> string \<Rightarrow> (fn \<Rightarrow> fn) \<Rightarrow> state \<Rightarrow> state" where
  "shimmer_wrap nodule nm wrapper s =
     (case nodule of
        Object r \<Rightarrow>
          (case heap s r nm of
             Function original \<Rightarrow>
               (set_prop r nm
                  (Function (Shimmed (next_id s) (Prop r nm) original (wrapper original))) s)
                 \<lparr>next_id := Suc (next_id s)\<rparr>
           | _ \<Rightarrow> s)
      | _ \<Rightarrow> s)"

definition shimmer_wrap_args ::
  "val list \<Rightarrow> nat \<Rightarrow> (fn \<Rightarrow> fn) \<Rightarrow> state \<Rightarrow> val list \<times> state" where
  "shimmer_wrap_args args k wrapper s =
     (case arg k args of
        Function original \<Rightarrow>
          (args[k := Function (Shimmed (next_id s) (ArgSlot k) original (wrapper original))],
           s\<lparr>next_id := Suc (next_id s)\<rparr>)
      | _ \<Rightarrow> (args, s))"

definition run_unwrap :: "fn \<Rightarrow> state \<Rightarrow> state" where
  "run_unwrap wrapped s =
     (case wrapped of
        Shimmed i (Prop r nm) original f \<Rightarrow>
          (if heap s r nm = Function wrapped then set_prop r nm (Function original) s else s)
      | _ \<Rightarrow> s)"

definition shimmer_unwrap :: "val \<Rightarrow> string \<Rightarrow> state \<Rightarrow> state" where
  "shimmer_unwrap nodule nm s =
     (case get_prop s nodule nm of
        Function (Shimmed i st original f) \<Rightarrow> run_unwrap (Shimmed i st original f) s
      | _ \<Rightarrow> s)"

fun isWrapped :: "val \<Rightarrow> bool" where
  "isWrapped (Function (Shimmed i st original f)) = True"
| "isWrapped v = False"

subsection \<open>The tracer and the event emitter\<close>

text \<open>
  The tracing API is used through \<^verbatim>\<open>startSpan\<close>, \<^verbatim>\<open>setAttribute\<close>, \<^verbatim>\<open>setStatus\<close>
  and \<^verbatim>\<open>end\<close> only; the tracer here records what it is told.
\<close>

definition startSpan :: "val \<Rightarrow> SpanKind \<Rightarrow> (string \<rightharpoonup> val) \<Rightarrow> state \<Rightarrow> nat \<times> state" where
  "startSpan nm k attrs s =
     (length (spans s),
      s\<lparr>spans := spans s @
           [\<lparr>name = nm, kind = k, attributes = attrs, status = None, ends = 0\<rparr>]\<rparr>)"

definition upd_span :: "nat \<Rightarrow> (span \<Rightarrow> span) \<Rightarrow> state \<Rightarrow> state" where
  "upd_span i f s =
     (if i < length (spans s) then s\<lparr>spans := (spans s)[i := f (spans s ! i)]\<rparr> else s)"

definition setAttribute :: "nat \<Rightarrow> string \<Rightarrow> val \<Rightarrow> state \<Rightarrow> state" where
  "setAttribute i k v = upd_span i (\<lambda>sp. sp\<lparr>attributes := (attributes sp)(k \<mapsto> v)\<rparr>)"

definition setStatus :: "nat \<Rightarrow> status \<Rightarrow> state \<Rightarrow> state" where
  "setStatus i st = upd_span i (\<lambda>sp. sp\<lparr>status := Some st\<rparr>)"

definition span_end :: "nat \<Rightarrow> state \<Rightarrow> state" where
  "span_end i = upd_span i (\<lambda>sp. sp\<lparr>ends := Suc (ends sp)\<rparr>)"

text \<open>
  \<^verbatim>\<open>streamableQuery.on(event, listener)\<close>: the source types the result of the
  original query as \<^verbatim>\<open>mysqlTypes.Query\<close>, an EventEmitter, whose \<^verbatim>\<open>on\<close> appends
  the listener and returns the emitter. A result that is not an object has no
  \<^verbatim>\<open>on\<close>, and the call throws a TypeError.
\<close>

definition emitter_on :: "val \<Rightarrow> string \<Rightarrow> fn \<Rightarrow> state \<Rightarrow> outcome \<times> state" where
  "emitter_on v ev l s =
     (case v of
        Object r \<Rightarrow> (Return v, s\<lparr>listeners := listeners s @ [(r, ev, l)]\<rparr>)
      | _ \<Rightarrow> (Throw TypeError, s))"

subsection \<open>Constants and helpers of the plugin\<close>

definition DB_SYSTEM :: string where "DB_SYSTEM = ''db.system''"
definition DB_STATEMENT :: string where "DB_STATEMENT = ''db.statement''"
definition COMPONENT :: string where "COMPONENT = ''mysql''"

definition COMMON_ATTRIBUTES :: "string \<rightharpoonup> val" where
  "COMMON_ATTRIBUTES = [DB_SYSTEM \<mapsto> String COMPONENT]"

text \<open>
  Modelled from the spec: \<^verbatim>\<open>getDbStatement\<close> of \<^verbatim>\<open>./utils\<close>, which is not among the
  sources. Section 4.4 says the statement attribute is computed "by rendering the
  query text against the bind values (if a values array or single value was
  supplied) using the collaborator's formatting function", and that the first
  argument of a query is "the query text or query-options record". For a string
  the query text is the string itself. For a query-options record (the
  \<^verbatim>\<open>QueryOptions\<close> of the mysql typings) the query text is its \<^verbatim>\<open>sql\<close> field, and
  the bind values are those of the call or, when the call supplies none, the
  truthy \<^verbatim>\<open>values\<close> field of the record. Without bind values the statement is
  the query text unrendered. The declared type of \<^verbatim>\<open>query\<close> admits no other
  first argument.
\<close>

definition getDbStatement ::
  "state \<Rightarrow> val \<Rightarrow> (val \<Rightarrow> val \<Rightarrow> val) \<Rightarrow> val option \<Rightarrow> val" where
  "getDbStatement s query fmt vals =
     (case query of
        String q \<Rightarrow> (case vals of Some vs \<Rightarrow> fmt query vs | None \<Rightarrow> query)
      | _ \<Rightarrow>
          (case vals of
             Some vs \<Rightarrow> fmt (get_prop s query ''sql'') vs
           | None \<Rightarrow>
               if truthy (get_prop s query ''values'')
               then fmt (get_prop s query ''sql'') (get_prop s query ''values'')
               else get_prop s query ''sql''))"

text \<open>The \<^verbatim>\<open>let values\<close> of \<^verbatim>\<open>query\<close> (lines 218 to 224); \<open>None\<close> is \<^verbatim>\<open>undefined\<close>.\<close>

definition query_values :: "val list \<Rightarrow> val option" where
  "query_values args =
     (if isArray (arg 1 args) then Some (arg 1 args)
      else if truthy (arg 2 args) then Some (Array [arg 1 args])
      else None)"

text \<open>The wrappers handed to shimmer: each takes the original function and
  returns the closure that replaces it.\<close>

definition patchCreateConnection :: "fn \<Rightarrow> fn" where
  "patchCreateConnection originalCreateConnection = CreateConnectionFn originalCreateConnection"

definition patchCreatePool :: "fn \<Rightarrow> fn" where
  "patchCreatePool originalCreatePool = CreatePoolFn originalCreatePool"

definition patchCreatePoolCluster :: "fn \<Rightarrow> fn" where
  "patchCreatePoolCluster originalCreatePoolCluster = CreatePoolClusterFn originalCreatePoolCluster"

definition patchGetConnection :: "val \<Rightarrow> fn \<Rightarrow> fn" where
  "patchGetConnection pool originalGetConnection = GetConnectionFn pool originalGetConnection"

definition getConnectionCallbackPatchFn :: "val \<Rightarrow> fn" where
  "getConnectionCallbackPatchFn cb = GetConnectionCallbackFn cb"

definition patchQuery :: "val \<Rightarrow> fn \<Rightarrow> fn" where
  "patchQuery connection originalQuery = QueryFn connection originalQuery"

definition patchCallbackQuery :: "nat \<Rightarrow> fn \<Rightarrow> fn" where
  "patchCallbackQuery sp originalCallback = CallbackQueryFn sp originalCallback"

text \<open>
  Two straight-line parts of the closures, named so that theorems can speak of
  them. \<open>start_query_span\<close> is lines 210 to 229 of \<^verbatim>\<open>query\<close>: the span is
  started with the common attributes overridden by those of the connection's
  configuration (object spread), then given its statement attribute.
  \<open>wrap_acquired\<close> is the \<^verbatim>\<open>if (arguments[1])\<close> block of the acquisition
  callback shim (lines 176 to 186).
\<close>

definition start_query_span :: "env \<Rightarrow> val \<Rightarrow> val list \<Rightarrow> state \<Rightarrow> nat \<times> state" where
  "start_query_span E connection args s =
     (case startSpan (getSpanName E (arg 0 args)) CLIENT
             (COMMON_ATTRIBUTES ++
                getConnectionAttributes E (heap s) (get_prop s connection ''config'')) s of
        (sp, s1) \<Rightarrow>
          (sp, setAttribute sp DB_STATEMENT
                 (getDbStatement s (arg 0 args) (format E) (query_values args)) s1))"

definition wrap_acquired :: "val \<Rightarrow> state \<Rightarrow> state" where
  "wrap_acquired connection s =
     (if truthy connection then
        (if \<not> isWrapped (get_prop s connection ''query'') then
           shimmer_wrap connection ''query'' (patchQuery connection) s
         else s)
      else s)"

subsection \<open>Calling a function value\<close>

text \<open>
  One equation for each kind of function. A native function is run by the
  environment and its call is logged. A function marked by shimmer runs as the
  function the wrapper returned. The remaining equations are the bodies of the
  closures of mysql.ts, in the order of the source; an exception of the
  original function leaves the closure at once, since none of them catches.
  The \<^verbatim>\<open>format\<close> that \<^verbatim>\<open>_patchQuery\<close> reads from the module when it wraps is
  the \<open>format\<close> of the environment.
\<close>

fun call :: "env \<Rightarrow> fn \<Rightarrow> val \<Rightarrow> val list \<Rightarrow> state \<Rightarrow> outcome \<times> state" where
  "call E (Native n) this args s =
     (case native E n this args (heap s) of
        (r, h) \<Rightarrow> (r, s\<lparr>heap := h, calls := calls s @ [(n, this, args)]\<rparr>))"
| "call E (Shimmed i st original f) this args s = call E f this args s"
| "call E (CreateConnectionFn originalCreateConnection) this args s =
     (case call E originalCreateConnection Undefined args s of
        (Throw e, s1) \<Rightarrow> (Throw e, s1)
      | (Return originalResult, s1) \<Rightarrow>
          (Return originalResult,
           shimmer_wrap originalResult ''query'' (patchQuery originalResult) s1))"
| "call E (CreatePoolFn originalCreatePool) this args s =
     (case call E originalCreatePool Undefined args s of
        (Throw e, s1) \<Rightarrow> (Throw e, s1)
      | (Return pool, s1) \<Rightarrow>
          (Return pool,
           shimmer_wrap pool ''getConnection'' (patchGetConnection pool)
             (shimmer_wrap pool ''query'' (patchQuery pool) s1)))"
| "call E (CreatePoolClusterFn originalCreatePoolCluster) this args s =
     (case call E originalCreatePoolCluster Undefined args s of
        (Throw e, s1) \<Rightarrow> (Throw e, s1)
      | (Return cluster, s1) \<Rightarrow>
          (Return cluster,
           shimmer_wrap cluster ''getConnection'' (patchGetConnection cluster) s1))"
| "call E (GetConnectionFn pool originalGetConnection) this args s =
     (if \<not> enabled s then
        call E originalGetConnection pool args (shimmer_unwrap pool ''getConnection'' s)
      else if length args = 1 \<and> is_function (arg 0 args) then
        call E originalGetConnection pool
          [Function (getConnectionCallbackPatchFn (arg 0 args))] s
      else if length args = 2 \<and> is_function (arg 1 args) then
        call E originalGetConnection pool
          [arg 0 args, Function (getConnectionCallbackPatchFn (arg 1 args))] s
      else if length args = 3 \<and> is_function (arg 2 args) then
        call E originalGetConnection pool
          [arg 0 args, arg 1 args, Function (getConnectionCallbackPatchFn (arg 2 args))] s
      else call E originalGetConnection pool args s)"
| "call E (GetConnectionCallbackFn cb) this args s =
     (let s1 = wrap_acquired (arg 1 args) s
      in case cb of
           Function f \<Rightarrow>
             (case call E f Undefined args s1 of
                (Throw e, s2) \<Rightarrow> (Throw e, s2)
              | (Return r, s2) \<Rightarrow> (Return Undefined, s2))
         | _ \<Rightarrow> (Return Undefined, s1))"
| "call E (QueryFn connection originalQuery) this args s =
     (if \<not> enabled s then
        call E originalQuery connection args (shimmer_unwrap connection ''query'' s)
      else
        (case start_query_span E connection args s of
           (sp, s2) \<Rightarrow>
             (if length args = 1 then
                (case call E originalQuery connection args s2 of
                   (Throw e, s3) \<Rightarrow> (Throw e, s3)
                 | (Return streamableQuery, s3) \<Rightarrow>
                     (case emitter_on streamableQuery ''error'' (OnErrorFn sp) s3 of
                        (Throw e, s4) \<Rightarrow> (Throw e, s4)
                      | (Return em, s4) \<Rightarrow> emitter_on em ''end'' (OnEndFn sp) s4))
              else if is_function (arg 1 args) then
                (case shimmer_wrap_args args 1 (patchCallbackQuery sp) s2 of
                   (args', s3) \<Rightarrow> call E originalQuery connection args' s3)
              else if is_function (arg 2 args) then
                (case shimmer_wrap_args args 2 (patchCallbackQuery sp) s2 of
                   (args', s3) \<Rightarrow> call E originalQuery connection args' s3)
              else call E originalQuery connection args s2)))"
| "call E (CallbackQueryFn sp originalCallback) this args s =
     (let s1 = (if truthy (arg 0 args) then
                  setStatus sp \<lparr>code = UNKNOWN,
                                message = Some (get_prop s (arg 0 args) ''message'')\<rparr> s
                else setStatus sp \<lparr>code = OK, message = None\<rparr> s)
      in call E originalCallback Undefined args (span_end sp s1))"
| "call E (OnErrorFn sp) this args s =
     (if arg 0 args = Undefined \<or> arg 0 args = Null then (Throw TypeError, s)
      else (Return (SpanRef sp),
            setStatus sp \<lparr>code = UNKNOWN,
                          message = Some (get_prop s (arg 0 args) ''message'')\<rparr> s))"
| "call E (OnEndFn sp) this args s = (Return Undefined, span_end sp s)"

subsection \<open>Activation and deactivation\<close>

definition patch :: "state \<Rightarrow> val \<times> state" where
  "patch s =
     (let s0 = s\<lparr>enabled := True\<rparr>;
          s1 = shimmer_wrap (moduleExports s0) ''createConnection'' patchCreateConnection s0;
          s2 = shimmer_wrap (moduleExports s1) ''createPool'' patchCreatePool s1;
          s3 = shimmer_wrap (moduleExports s2) ''createPoolCluster'' patchCreatePoolCluster s2
      in (moduleExports s3, s3))"

definition unpatch :: "state \<Rightarrow> state" where
  "unpatch s =
     (let s0 = s\<lparr>enabled := False\<rparr>;
          s1 = shimmer_unwrap (moduleExports s0) ''createConnection'' s0;
          s2 = shimmer_unwrap (moduleExports s1) ''createPool'' s1
      in shimmer_unwrap (moduleExports s2) ''createPoolCluster'' s2)"

subsection \<open>What callers and the driver do\<close>

text \<open>A method call \<^verbatim>\<open>obj.name(args)\<close> made by a caller.\<close>

definition invoke :: "env \<Rightarrow> val \<Rightarrow> string \<Rightarrow> val list \<Rightarrow> state \<Rightarrow> outcome \<times> state" where
  "invoke E obj nm args s =
     (case get_prop s obj nm of
        Function f \<Rightarrow> call E f obj args s
      | _ \<Rightarrow> (Throw TypeError, s))"

text \<open>The emitter \<open>r\<close> emits an event: the listeners registered for it run in
  the order they were added, and a listener that throws stops the emission.
  Without a listener nothing runs, and an \<^verbatim>\<open>error\<close> event is thrown.\<close>

fun run_listeners :: "env \<Rightarrow> fn list \<Rightarrow> val \<Rightarrow> val list \<Rightarrow> state \<Rightarrow> outcome \<times> state" where
  "run_listeners E [] this args s = (Return (Boolean True), s)"
| "run_listeners E (l # ls) this args s =
     (case call E l this args s of
        (Throw e, s1) \<Rightarrow> (Throw e, s1)
      | (Return r, s1) \<Rightarrow> run_listeners E ls this args s1)"

definition listeners_of :: "nat \<Rightarrow> string \<Rightarrow> state \<Rightarrow> fn list" where
  "listeners_of r ev s =
     map (\<lambda>(r', ev', l). l) (filter (\<lambda>(r', ev', l). r' = r \<and> ev' = ev) (listeners s))"

definition emit :: "env \<Rightarrow> nat \<Rightarrow> string \<Rightarrow> val list \<Rightarrow> state \<Rightarrow> outcome \<times> state" where
  "emit E r ev args s =
     (if listeners_of r ev s = [] then
        (if ev = ''error'' then (Throw (Thrown (arg 0 args)), s)
         else (Return (Boolean False), s))
      else run_listeners E (listeners_of r ev s) (Object r) args s)"

subsection \<open>Counting wraps\<close>

text \<open>The number of shimmer wraps stacked on a value: each marked function
  counts one more than the original it hides.\<close>

fun fn_wraps :: "fn \<Rightarrow> nat" where
  "fn_wraps (Shimmed i st original f) = Suc (fn_wraps original)"
| "fn_wraps f = 0"

fun wrap_count :: "val \<Rightarrow> nat" where
  "wrap_count (Function f) = fn_wraps f"
| "wrap_count v = 0"

subsection \<open>A small driver for concrete runs\<close>

text \<open>
  A stand-in for the mysql module, used where a property is run on concrete
  input. Object 0 is the module with its three factories (natives 0, 1, 2);
  every factory returns object 5, which has a \<^verbatim>\<open>query\<close> (native 3) and a
  \<^verbatim>\<open>getConnection\<close> (native 4); object 6 is a pooled connection with its own
  \<^verbatim>\<open>query\<close> (native 5); object 8 is an error with a message. The native
  queries return the emitter 9; any other native (a caller's callback) returns
  \<^verbatim>\<open>undefined\<close>. The formatting function substitutes the one value of the
  statement \<^verbatim>\<open>SELECT ?\<close>.
\<close>

definition stub_native :: "nat \<Rightarrow> val \<Rightarrow> val list \<Rightarrow> heap \<Rightarrow> outcome \<times> heap" where
  "stub_native n this args h =
     (if n \<le> 2 then (Return (Object 5), h)
      else if n = 3 \<or> n = 5 then (Return (Object 9), h)
      else (Return Undefined, h))"

definition stub_format :: "val \<Rightarrow> val \<Rightarrow> val" where
  "stub_format q vs =
     (if q = String ''SELECT ?'' \<and> vs = Array [Number 5] then String ''SELECT 5'' else q)"

definition stub_env :: env where
  "stub_env = \<lparr>native = stub_native, format = stub_format,
                getSpanName = (\<lambda>q. String ''mysql.query''),
                getConnectionAttributes = (\<lambda>h cfg. Map.empty)\<rparr>"

definition stub_heap :: heap where
  "stub_heap r p =
     (if r = 0 \<and> p = ''createConnection'' then Function (Native 0)
      else if r = 0 \<and> p = ''createPool'' then Function (Native 1)
      else if r = 0 \<and> p = ''createPoolCluster'' then Function (Native 2)
      else if r = 5 \<and> p = ''query'' then Function (Native 3)
      else if r = 5 \<and> p = ''getConnection'' then Function (Native 4)
      else if r = 6 \<and> p = ''query'' then Function (Native 5)
      else if r = 8 \<and> p = ''message'' then String ''connection lost''
      else Undefined)"

definition init_state :: state where
  "init_state = \<lparr>heap = stub_heap, enabled = False, moduleExports = Object 0,
                   spans = [], listeners = [], calls = [], next_id = 0\<rparr>"

text \<open>The state after activation and after the wrapped \<^verbatim>\<open>createPool\<close> has
  produced object 5, whose two methods are now wrapped.\<close>

definition pool_state :: state where
  "pool_state =
     snd (invoke stub_env (Object 0) ''createPool'' [String ''mysql://db''] (snd (patch init_state)))"

text \<open>The states after activation and after the wrapped \<^verbatim>\<open>createConnection\<close>,
  which wraps only \<^verbatim>\<open>query\<close> of object 5, and after the wrapped
  \<^verbatim>\<open>createPoolCluster\<close>, which wraps only its \<^verbatim>\<open>getConnection\<close>.\<close>

definition conn_state :: state where
  "conn_state =
     snd (invoke stub_env (Object 0) ''createConnection'' [String ''mysql://db'']
            (snd (patch init_state)))"

definition cluster_state :: state where
  "cluster_state =
     snd (invoke stub_env (Object 0) ''createPoolCluster'' [] (snd (patch init_state)))"

text \<open>The states after \<^verbatim>\<open>query("SELECT 1", cb)\<close> with the caller's callback
  (native 7), after \<^verbatim>\<open>query("SELECT 1")\<close>, and after
  \<^verbatim>\<open>query("SELECT ?", [5])\<close> without a callback, each on that pool.\<close>

definition callback_state :: state where
  "callback_state =
     snd (invoke stub_env (Object 5) ''query'' [String ''SELECT 1'', Function (Native 7)] pool_state)"

definition stream_state :: state where
  "stream_state = snd (invoke stub_env (Object 5) ''query'' [String ''SELECT 1''] pool_state)"

definition values_only_state :: state where
  "values_only_state =
     snd (invoke stub_env (Object 5) ''query'' [String ''SELECT ?'', Array [Number 5]] pool_state)"

section \<open>Auxiliary facts\<close>

lemmas run_defs =
  invoke_def patch_def unpatch_def init_state_def get_prop_def shimmer_wrap_def
  shimmer_unwrap_def run_unwrap_def set_prop_def stub_heap_def stub_env_def
  stub_native_def stub_format_def patchCreateConnection_def patchCreatePool_def
  patchCreatePoolCluster_def patchQuery_def patchGetConnection_def Let_def

lemma start_query_span_eq:
  "start_query_span E c args s =
     (length (spans s),
      s\<lparr>spans := spans s @
         [\<lparr>name = getSpanName E (arg 0 args), kind = CLIENT,
           attributes = (COMMON_ATTRIBUTES ++
                getConnectionAttributes E (heap s) (get_prop s c ''config''))
              (DB_STATEMENT \<mapsto> getDbStatement s (arg 0 args) (format E) (query_values args)),
           status = None, ends = 0\<rparr>]\<rparr>)"
  by (simp add: start_query_span_def startSpan_def setAttribute_def upd_span_def)

lemma shimmer_unwrap_installed:
  assumes "heap s r nm = Function (Shimmed i (Prop r nm) original f)"
  shows "shimmer_unwrap (Object r) nm s = set_prop r nm (Function original) s"
  using assms by (simp add: shimmer_unwrap_def get_prop_def run_unwrap_def)

lemma pool_state_enabled: "enabled pool_state"
  by (simp add: pool_state_def run_defs)

lemma pool_state_query:
  "heap pool_state 5 ''query'' =
     Function (Shimmed 3 (Prop 5 ''query'') (Native 3) (QueryFn (Object 5) (Native 3)))"
  by (simp add: pool_state_def run_defs)

lemma pool_state_getConnection:
  "heap pool_state 5 ''getConnection'' =
     Function (Shimmed 4 (Prop 5 ''getConnection'') (Native 4)
                 (GetConnectionFn (Object 5) (Native 4)))"
  by (simp add: pool_state_def run_defs)

lemma pool_state_spans: "spans pool_state = []"
  by (simp add: pool_state_def run_defs)

lemma pool_state_calls: "calls pool_state = [(1, Undefined, [String ''mysql://db''])]"
  by (simp add: pool_state_def run_defs)

lemma pool_state_listeners: "listeners pool_state = []"
  by (simp add: pool_state_def run_defs)

lemma shimmer_wrap_fields [simp]:
  "spans (shimmer_wrap v nm w s) = spans s"
  "calls (shimmer_wrap v nm w s) = calls s"
  "listeners (shimmer_wrap v nm w s) = listeners s"
  "enabled (shimmer_wrap v nm w s) = enabled s"
  "moduleExports (shimmer_wrap v nm w s) = moduleExports s"
  by (simp_all add: shimmer_wrap_def set_prop_def split: val.splits)

lemma shimmer_wrap_heap:
  "heap (shimmer_wrap v nm w s) r p =
     (case heap s r p of
        Function q \<Rightarrow>
          if v = Object r \<and> p = nm then Function (Shimmed (next_id s) (Prop r nm) q (w q))
          else Function q
      | x \<Rightarrow> x)"
  by (auto simp add: shimmer_wrap_def set_prop_def split: val.splits)

lemma wrap_acquired_fields [simp]:
  "spans (wrap_acquired c s) = spans s"
  "calls (wrap_acquired c s) = calls s"
  "listeners (wrap_acquired c s) = listeners s"
  "enabled (wrap_acquired c s) = enabled s"
  by (simp_all add: wrap_acquired_def)

lemma wrap_acquired_idem: "wrap_acquired c (wrap_acquired c s) = wrap_acquired c s"
proof (cases "truthy c \<and> \<not> isWrapped (get_prop s c ''query'')")
  case False
  then show ?thesis by (auto simp add: wrap_acquired_def)
next
  case True
  show ?thesis
  proof (cases c)
    case (Object r)
    show ?thesis
    proof (cases "heap s r ''query''")
      case (Function q)
      then show ?thesis using True Object
        by (simp add: wrap_acquired_def get_prop_def shimmer_wrap_def set_prop_def)
    qed (use True Object in \<open>simp_all add: wrap_acquired_def get_prop_def shimmer_wrap_def\<close>)
  qed (use True in \<open>simp_all add: wrap_acquired_def shimmer_wrap_def get_prop_def\<close>)
qed

lemma wrap_acquired_count:
  "wrap_count (get_prop s c ''query'') \<le> 1 \<Longrightarrow>
   wrap_count (get_prop (wrap_acquired c s) c ''query'') \<le> 1"
proof (cases c)
  case (Object r)
  assume le: "wrap_count (get_prop s c ''query'') \<le> 1"
  show ?thesis
  proof (cases "heap s r ''query''")
    case (Function q)
    show ?thesis
    proof (cases q)
      case (Shimmed i st orig f)
      then show ?thesis using le Object Function
        by (simp add: wrap_acquired_def get_prop_def)
    qed (use le Object Function in
          \<open>simp_all add: wrap_acquired_def get_prop_def shimmer_wrap_def set_prop_def patchQuery_def\<close>)
  qed (use le Object in \<open>simp_all add: wrap_acquired_def get_prop_def shimmer_wrap_def\<close>)
qed (simp_all add: wrap_acquired_def get_prop_def shimmer_wrap_def)

lemma pool_state_next_id: "next_id pool_state = 5"
  by (simp add: pool_state_def run_defs)

lemma unwrap_not_wrapped:
  "\<not> isWrapped (get_prop s nodule nm) \<Longrightarrow> shimmer_unwrap nodule nm s = s"
  by (cases "get_prop s nodule nm" rule: isWrapped.cases) (simp_all add: shimmer_unwrap_def)

lemma patch_heap:
  assumes m: "moduleExports s = Object m"
    and f1: "heap s m ''createConnection'' = Function f1"
    and f2: "heap s m ''createPool'' = Function f2"
    and f3: "heap s m ''createPoolCluster'' = Function f3"
  shows "fst (patch s) = Object m" "enabled (snd (patch s))"
    "moduleExports (snd (patch s)) = Object m"
    "heap (snd (patch s)) m ''createConnection'' =
       Function (Shimmed (next_id s) (Prop m ''createConnection'') f1 (CreateConnectionFn f1))"
    "heap (snd (patch s)) m ''createPool'' =
       Function (Shimmed (Suc (next_id s)) (Prop m ''createPool'') f2 (CreatePoolFn f2))"
    "heap (snd (patch s)) m ''createPoolCluster'' =
       Function (Shimmed (Suc (Suc (next_id s))) (Prop m ''createPoolCluster'') f3
                   (CreatePoolClusterFn f3))"
  using assms
  by (simp_all add: patch_def Let_def shimmer_wrap_def set_prop_def patchCreateConnection_def
        patchCreatePool_def patchCreatePoolCluster_def)

lemma wrap_acquired_marked:
  "isWrapped (get_prop s c ''query'') \<Longrightarrow> wrap_acquired c s = s"
  by (simp add: wrap_acquired_def)

section \<open>Deactivation: wrapped methods heal themselves\<close>

text \<open>
  C4. After deactivation (\<^verbatim>\<open>_enabled\<close> is false), the next call of a wrapped
  \<^verbatim>\<open>query\<close> method, and likewise the next call of a wrapped \<^verbatim>\<open>getConnection\<close>
  method, on whatever object it was installed, is the call of the original
  method on the same object with the same arguments, so it returns what the
  original returns; the original runs in a state where the property holds the
  original function again and where no span has been added; and a further call
  of the method in that state is a call of the original function itself. The
  two halves are independent: neither asks that the other method be wrapped.
\<close>

theorem disabled_wrapper_restores_original:
  "(\<not> enabled s
      \<and> heap s r ''query'' =
          Function (Shimmed i (Prop r ''query'') originalQuery (QueryFn (Object r) originalQuery))
    \<longrightarrow> invoke E (Object r) ''query'' args s =
          call E originalQuery (Object r) args (set_prop r ''query'' (Function originalQuery) s)
      \<and> spans (set_prop r ''query'' (Function originalQuery) s) = spans s
      \<and> heap (set_prop r ''query'' (Function originalQuery) s) r ''query'' =
          Function originalQuery
      \<and> invoke E (Object r) ''query'' args' (set_prop r ''query'' (Function originalQuery) s) =
          call E originalQuery (Object r) args' (set_prop r ''query'' (Function originalQuery) s))
   \<and> (\<not> enabled t
      \<and> heap t p ''getConnection'' =
          Function (Shimmed j (Prop p ''getConnection'') originalGetConnection
                      (GetConnectionFn (Object p) originalGetConnection))
    \<longrightarrow> invoke E (Object p) ''getConnection'' gargs t =
          call E originalGetConnection (Object p) gargs
            (set_prop p ''getConnection'' (Function originalGetConnection) t)
      \<and> spans (set_prop p ''getConnection'' (Function originalGetConnection) t) = spans t
      \<and> heap (set_prop p ''getConnection'' (Function originalGetConnection) t) p
            ''getConnection'' = Function originalGetConnection
      \<and> invoke E (Object p) ''getConnection'' gargs'
            (set_prop p ''getConnection'' (Function originalGetConnection) t) =
          call E originalGetConnection (Object p) gargs'
            (set_prop p ''getConnection'' (Function originalGetConnection) t))"
proof -
  have qh: "invoke E (Object r) ''query'' args s =
          call E originalQuery (Object r) args (set_prop r ''query'' (Function originalQuery) s)
      \<and> spans (set_prop r ''query'' (Function originalQuery) s) = spans s
      \<and> heap (set_prop r ''query'' (Function originalQuery) s) r ''query'' =
          Function originalQuery
      \<and> invoke E (Object r) ''query'' args' (set_prop r ''query'' (Function originalQuery) s) =
          call E originalQuery (Object r) args' (set_prop r ''query'' (Function originalQuery) s)"
    if off: "\<not> enabled s"
      and q: "heap s r ''query'' =
          Function (Shimmed i (Prop r ''query'') originalQuery (QueryFn (Object r) originalQuery))"
  proof -
    have uq: "shimmer_unwrap (Object r) ''query'' s =
              set_prop r ''query'' (Function originalQuery) s"
      using q by (rule shimmer_unwrap_installed)
    have 1: "invoke E (Object r) ''query'' args s =
          call E originalQuery (Object r) args (set_prop r ''query'' (Function originalQuery) s)"
      using off q uq by (simp add: invoke_def get_prop_def)
    have 3: "invoke E (Object r) ''query'' args' (set_prop r ''query'' (Function originalQuery) s) =
          call E originalQuery (Object r) args' (set_prop r ''query'' (Function originalQuery) s)"
      by (simp add: invoke_def get_prop_def set_prop_def)
    show ?thesis using 1 3 by (simp add: set_prop_def)
  qed
  have gh: "invoke E (Object p) ''getConnection'' gargs t =
          call E originalGetConnection (Object p) gargs
            (set_prop p ''getConnection'' (Function originalGetConnection) t)
      \<and> spans (set_prop p ''getConnection'' (Function originalGetConnection) t) = spans t
      \<and> heap (set_prop p ''getConnection'' (Function originalGetConnection) t) p
            ''getConnection'' = Function originalGetConnection
      \<and> invoke E (Object p) ''getConnection'' gargs'
            (set_prop p ''getConnection'' (Function originalGetConnection) t) =
          call E originalGetConnection (Object p) gargs'
            (set_prop p ''getConnection'' (Function originalGetConnection) t)"
    if off: "\<not> enabled t"
      and g: "heap t p ''getConnection'' =
          Function (Shimmed j (Prop p ''getConnection'') originalGetConnection
                      (GetConnectionFn (Object p) originalGetConnection))"
  proof -
    have ug: "shimmer_unwrap (Object p) ''getConnection'' t =
              set_prop p ''getConnection'' (Function originalGetConnection) t"
      using g by (rule shimmer_unwrap_installed)
    have 2: "invoke E (Object p) ''getConnection'' gargs t =
          call E originalGetConnection (Object p) gargs
            (set_prop p ''getConnection'' (Function originalGetConnection) t)"
      using off g ug by (simp add: invoke_def get_prop_def)
    have 4: "invoke E (Object p) ''getConnection'' gargs'
            (set_prop p ''getConnection'' (Function originalGetConnection) t) =
          call E originalGetConnection (Object p) gargs'
            (set_prop p ''getConnection'' (Function originalGetConnection) t)"
      by (simp add: invoke_def get_prop_def set_prop_def)
    show ?thesis using 2 4 by (simp add: set_prop_def)
  qed
  show ?thesis using qh gh by blast
qed

text \<open>
  The stand-in driver after \<^verbatim>\<open>unpatch\<close>. On the connection made by
  \<^verbatim>\<open>createConnection\<close> only \<^verbatim>\<open>query\<close> is wrapped (its \<^verbatim>\<open>getConnection\<close> is the
  native function): a query with a callback reaches the native query (native 3)
  with the caller's own callback, no span is started, and the \<^verbatim>\<open>query\<close>
  property is the native function again. On the cluster made by
  \<^verbatim>\<open>createPoolCluster\<close> only \<^verbatim>\<open>getConnection\<close> is wrapped (its \<^verbatim>\<open>query\<close> is the
  native function): an acquisition reaches the native \<^verbatim>\<open>getConnection\<close>
  (native 4) with the caller's own callback, and the property is the native
  function again.
\<close>

theorem disabled_wrapper_restores_original_witness:
  "\<not> enabled (unpatch conn_state)
   \<and> heap (unpatch conn_state) 5 ''query'' =
       Function (Shimmed 3 (Prop 5 ''query'') (Native 3) (QueryFn (Object 5) (Native 3)))
   \<and> heap (unpatch conn_state) 5 ''getConnection'' = Function (Native 4)
   \<and> \<not> enabled (unpatch cluster_state)
   \<and> heap (unpatch cluster_state) 5 ''getConnection'' =
       Function (Shimmed 3 (Prop 5 ''getConnection'') (Native 4)
                   (GetConnectionFn (Object 5) (Native 4)))
   \<and> heap (unpatch cluster_state) 5 ''query'' = Function (Native 3)
   \<and> invoke stub_env (Object 5) ''query'' [String ''SELECT 1'', Function (Native 7)]
         (unpatch conn_state) =
       call stub_env (Native 3) (Object 5) [String ''SELECT 1'', Function (Native 7)]
         (set_prop 5 ''query'' (Function (Native 3)) (unpatch conn_state))
   \<and> spans (snd (invoke stub_env (Object 5) ''query'' [String ''SELECT 1'', Function (Native 7)]
         (unpatch conn_state))) = []
   \<and> heap (snd (invoke stub_env (Object 5) ''query'' [String ''SELECT 1'', Function (Native 7)]
         (unpatch conn_state))) 5 ''query'' = Function (Native 3)
   \<and> calls (snd (invoke stub_env (Object 5) ''query'' [String ''SELECT 1'', Function (Native 7)]
         (unpatch conn_state))) =
       calls (unpatch conn_state) @
       [(3, Object 5, [String ''SELECT 1'', Function (Native 7)])]
   \<and> invoke stub_env (Object 5) ''getConnection'' [Function (Native 7)]
         (unpatch cluster_state) =
       call stub_env (Native 4) (Object 5) [Function (Native 7)]
         (set_prop 5 ''getConnection'' (Function (Native 4)) (unpatch cluster_state))
   \<and> spans (snd (invoke stub_env (Object 5) ''getConnection'' [Function (Native 7)]
         (unpatch cluster_state))) = []
   \<and> heap (snd (invoke stub_env (Object 5) ''getConnection'' [Function (Native 7)]
         (unpatch cluster_state))) 5 ''getConnection'' = Function (Native 4)
   \<and> calls (snd (invoke stub_env (Object 5) ''getConnection'' [Function (Native 7)]
         (unpatch cluster_state))) =
       calls (unpatch cluster_state) @ [(4, Object 5, [Function (Native 7)])]"
proof -
  have h1: "\<not> enabled (unpatch conn_state)"
    by (simp add: conn_state_def run_defs)
  have h2: "heap (unpatch conn_state) 5 ''query'' =
       Function (Shimmed 3 (Prop 5 ''query'') (Native 3) (QueryFn (Object 5) (Native 3)))"
    by (simp add: conn_state_def run_defs)
  have h3: "heap (unpatch conn_state) 5 ''getConnection'' = Function (Native 4)"
    by (simp add: conn_state_def run_defs)
  have h4: "spans (unpatch conn_state) = []"
    by (simp add: conn_state_def run_defs)
  have k1: "\<not> enabled (unpatch cluster_state)"
    by (simp add: cluster_state_def run_defs)
  have k2: "heap (unpatch cluster_state) 5 ''getConnection'' =
       Function (Shimmed 3 (Prop 5 ''getConnection'') (Native 4)
                   (GetConnectionFn (Object 5) (Native 4)))"
    by (simp add: cluster_state_def run_defs)
  have k3: "heap (unpatch cluster_state) 5 ''query'' = Function (Native 3)"
    by (simp add: cluster_state_def run_defs)
  have k4: "spans (unpatch cluster_state) = []"
    by (simp add: cluster_state_def run_defs)
  note th = disabled_wrapper_restores_original [where s = "unpatch conn_state" and r = 5
      and i = 3 and originalQuery = "Native 3" and E = stub_env
      and args = "[String ''SELECT 1'', Function (Native 7)]"
      and t = "unpatch cluster_state" and p = 5 and j = 3
      and originalGetConnection = "Native 4" and gargs = "[Function (Native 7)]"]
  have c1: "invoke stub_env (Object 5) ''query'' [String ''SELECT 1'', Function (Native 7)]
         (unpatch conn_state) =
       call stub_env (Native 3) (Object 5) [String ''SELECT 1'', Function (Native 7)]
         (set_prop 5 ''query'' (Function (Native 3)) (unpatch conn_state))"
    using th h1 h2 by blast
  have c2: "spans (snd (invoke stub_env (Object 5) ''query''
         [String ''SELECT 1'', Function (Native 7)] (unpatch conn_state))) = []"
    unfolding c1 using h4 by (simp add: set_prop_def stub_env_def stub_native_def)
  have c3: "heap (snd (invoke stub_env (Object 5) ''query''
         [String ''SELECT 1'', Function (Native 7)] (unpatch conn_state))) 5 ''query'' =
       Function (Native 3)"
    unfolding c1 by (simp add: set_prop_def stub_env_def stub_native_def)
  have c4: "calls (snd (invoke stub_env (Object 5) ''query''
         [String ''SELECT 1'', Function (Native 7)] (unpatch conn_state))) =
       calls (unpatch conn_state) @
       [(3, Object 5, [String ''SELECT 1'', Function (Native 7)])]"
    unfolding c1 by (simp add: set_prop_def stub_env_def stub_native_def)
  have d1: "invoke stub_env (Object 5) ''getConnection'' [Function (Native 7)]
         (unpatch cluster_state) =
       call stub_env (Native 4) (Object 5) [Function (Native 7)]
         (set_prop 5 ''getConnection'' (Function (Native 4)) (unpatch cluster_state))"
    using th k1 k2 by blast
  have d2: "spans (snd (invoke stub_env (Object 5) ''getConnection'' [Function (Native 7)]
         (unpatch cluster_state))) = []"
    unfolding d1 using k4 by (simp add: set_prop_def stub_env_def stub_native_def)
  have d3: "heap (snd (invoke stub_env (Object 5) ''getConnection'' [Function (Native 7)]
         (unpatch cluster_state))) 5 ''getConnection'' = Function (Native 4)"
    unfolding d1 by (simp add: set_prop_def stub_env_def stub_native_def)
  have d4: "calls (snd (invoke stub_env (Object 5) ''getConnection'' [Function (Native 7)]
         (unpatch cluster_state))) =
       calls (unpatch cluster_state) @ [(4, Object 5, [Function (Native 7)])]"
    unfolding d1 by (simp add: set_prop_def stub_env_def stub_native_def)
  show ?thesis using h1 h2 h3 k1 k2 k3 c1 c2 c3 c4 d1 d2 d3 d4 by blast
qed

section \<open>Connection acquisition\<close>

text \<open>
  C8. While enabled, an acquisition call with one, two or three arguments whose
  last argument is a function calls the original acquisition method on the pool
  with the same leading arguments and with the last argument replaced by the
  shim of that callback. The shim, called with any arguments, calls the caller's
  callback with exactly those arguments (after the wrapping step on its second
  argument) and returns \<^verbatim>\<open>undefined\<close>, or throws what the callback throws.
\<close>

theorem acquisition_callback_replaced:
  assumes on: "enabled s"
    and len: "length args = 1 \<or> length args = 2 \<or> length args = 3"
    and cb: "last args = Function cb"
  shows "call E (GetConnectionFn pool originalGetConnection) this args s =
           call E originalGetConnection pool
             (butlast args @ [Function (GetConnectionCallbackFn (Function cb))]) s
       \<and> call E (GetConnectionCallbackFn (Function cb)) this' cargs t =
           (case call E cb Undefined cargs (wrap_acquired (arg 1 cargs) t) of
              (Throw e, t') \<Rightarrow> (Throw e, t')
            | (Return r, t') \<Rightarrow> (Return Undefined, t'))"
proof -
  from len consider (1) a where "args = [a]" | (2) a b where "args = [a, b]"
    | (3) a b c where "args = [a, b, c]"
    by (cases args; cases "tl args"; cases "tl (tl args)"; cases "tl (tl (tl args))") auto
  then have "call E (GetConnectionFn pool originalGetConnection) this args s =
           call E originalGetConnection pool
             (butlast args @ [Function (GetConnectionCallbackFn (Function cb))]) s"
    using on cb by cases (simp_all add: arg_def getConnectionCallbackPatchFn_def)
  then show ?thesis by simp
qed

text \<open>
  A cluster-style acquisition with a pattern, a selector and a callback on the
  pool of the stand-in driver: the native \<^verbatim>\<open>getConnection\<close> (native 4) is called
  with the two leading arguments as given and the shim in third place.
\<close>

theorem acquisition_callback_replaced_witness:
  "enabled pool_state
   \<and> (length [String ''SLAVE*'', String ''ORDER'', Function (Native 7)] = 1
      \<or> length [String ''SLAVE*'', String ''ORDER'', Function (Native 7)] = 2
      \<or> length [String ''SLAVE*'', String ''ORDER'', Function (Native 7)] = 3)
   \<and> last [String ''SLAVE*'', String ''ORDER'', Function (Native 7)] = Function (Native 7)
   \<and> calls (snd (invoke stub_env (Object 5) ''getConnection''
              [String ''SLAVE*'', String ''ORDER'', Function (Native 7)] pool_state)) =
       calls pool_state @
       [(4, Object 5, [String ''SLAVE*'', String ''ORDER'',
                       Function (GetConnectionCallbackFn (Function (Native 7)))])]"
proof -
  have h2: "length [String ''SLAVE*'', String ''ORDER'', Function (Native 7)] = 1
      \<or> length [String ''SLAVE*'', String ''ORDER'', Function (Native 7)] = 2
      \<or> length [String ''SLAVE*'', String ''ORDER'', Function (Native 7)] = 3"
    by simp
  have h3: "last [String ''SLAVE*'', String ''ORDER'', Function (Native 7)] = Function (Native 7)"
    by simp
  note th = acquisition_callback_replaced [OF pool_state_enabled h2 h3,
      of stub_env "Object 5" "Native 4" "Object 5" Undefined "[]" pool_state]
  have "invoke stub_env (Object 5) ''getConnection''
              [String ''SLAVE*'', String ''ORDER'', Function (Native 7)] pool_state =
        call stub_env (GetConnectionFn (Object 5) (Native 4)) (Object 5)
              [String ''SLAVE*'', String ''ORDER'', Function (Native 7)] pool_state"
    by (simp add: invoke_def get_prop_def pool_state_getConnection del: call.simps) simp
  also have "\<dots> = call stub_env (Native 4) (Object 5)
              [String ''SLAVE*'', String ''ORDER'',
               Function (GetConnectionCallbackFn (Function (Native 7)))] pool_state"
    using th by simp
  finally have c: "calls (snd (invoke stub_env (Object 5) ''getConnection''
              [String ''SLAVE*'', String ''ORDER'', Function (Native 7)] pool_state)) =
       calls pool_state @
       [(4, Object 5, [String ''SLAVE*'', String ''ORDER'',
                       Function (GetConnectionCallbackFn (Function (Native 7)))])]"
    by (simp add: stub_env_def stub_native_def)
  show ?thesis using pool_state_enabled h2 h3 c by blast
qed

section \<open>A failed acquisition\<close>

text \<open>
  C10. When the second argument of the acquisition callback shim is falsy (the
  acquisition failed and there is no connection), the shim wraps nothing and
  calls the caller's callback with the arguments it received. Whatever the
  arguments, one call of the shim makes exactly one call of the caller's
  callback.
\<close>

theorem acquisition_failure_forwarded:
  assumes "\<not> truthy (arg 1 args)"
  shows "wrap_acquired (arg 1 args) s = s
       \<and> call E (GetConnectionCallbackFn (Function cb)) this args s =
           (case call E cb Undefined args s of
              (Throw e, s') \<Rightarrow> (Throw e, s')
            | (Return r, s') \<Rightarrow> (Return Undefined, s'))
       \<and> calls (snd (call E (GetConnectionCallbackFn (Function (Native n))) this args' s)) =
           calls s @ [(n, Undefined, args')]"
proof -
  have 1: "wrap_acquired (arg 1 args) s = s"
    using assms by (simp add: wrap_acquired_def)
  have 2: "call E (GetConnectionCallbackFn (Function cb)) this args s =
           (case call E cb Undefined args s of
              (Throw e, s') \<Rightarrow> (Throw e, s')
            | (Return r, s') \<Rightarrow> (Return Undefined, s'))"
    using 1 by simp
  have 3: "calls (snd (call E (GetConnectionCallbackFn (Function (Native n))) this args' s)) =
           calls s @ [(n, Undefined, args')]"
  proof -
    obtain r h where nat:
      "native E n Undefined args' (heap (wrap_acquired (arg 1 args') s)) = (r, h)"
      by force
    show ?thesis using nat by (cases r) (simp_all add: Let_def)
  qed
  show ?thesis using 1 2 3 by blast
qed

text \<open>
  The shim of the caller's callback (native 7) called with the error object 8
  alone: the callback receives the error, and the heap is as before.
\<close>

theorem acquisition_failure_forwarded_witness:
  "\<not> truthy (arg 1 [Object 8])
   \<and> truthy (arg 0 [Object 8])
   \<and> wrap_acquired (arg 1 [Object 8]) pool_state = pool_state
   \<and> fst (call stub_env (GetConnectionCallbackFn (Function (Native 7))) Undefined [Object 8]
            pool_state) = Return Undefined
   \<and> heap (snd (call stub_env (GetConnectionCallbackFn (Function (Native 7))) Undefined [Object 8]
            pool_state)) = heap pool_state
   \<and> calls (snd (call stub_env (GetConnectionCallbackFn (Function (Native 7))) Undefined [Object 8]
            pool_state)) = calls pool_state @ [(7, Undefined, [Object 8])]"
proof -
  have h1: "\<not> truthy (arg 1 [Object 8])" by (simp add: arg_def)
  have h0: "truthy (arg 0 [Object 8])" by (simp add: arg_def)
  note th = acquisition_failure_forwarded [OF h1, of pool_state stub_env "Native 7" Undefined 7
      "[Object 8]"]
  have run: "call stub_env (GetConnectionCallbackFn (Function (Native 7))) Undefined [Object 8]
            pool_state =
      (Return Undefined,
       pool_state\<lparr>heap := heap pool_state,
                  calls := calls pool_state @ [(7, Undefined, [Object 8])]\<rparr>)"
    using th by (simp add: stub_env_def stub_native_def del: call.simps(7))
  have c1: "fst (call stub_env (GetConnectionCallbackFn (Function (Native 7))) Undefined [Object 8]
            pool_state) = Return Undefined"
    by (simp add: run del: call.simps)
  have c2: "heap (snd (call stub_env (GetConnectionCallbackFn (Function (Native 7))) Undefined
            [Object 8] pool_state)) = heap pool_state"
    by (simp add: run del: call.simps)
  have c3: "calls (snd (call stub_env (GetConnectionCallbackFn (Function (Native 7))) Undefined
            [Object 8] pool_state)) = calls pool_state @ [(7, Undefined, [Object 8])]"
    by (simp add: run del: call.simps)
  have c0: "wrap_acquired (arg 1 [Object 8]) pool_state = pool_state"
    using th by blast
  show ?thesis using h0 h1 c0 c1 c2 c3 by blast
qed

section \<open>Acquired connections are wrapped once\<close>

text \<open>
  C5. The acquisition callback shim leaves a connection alone whose \<^verbatim>\<open>query\<close>
  already carries the wrapped marker, and wraps a \<^verbatim>\<open>query\<close> that does not. Its
  wrapping step is idempotent, so delivering the same connection through the
  shim again behaves as if the step had not run a second time, and a \<^verbatim>\<open>query\<close>
  that carried at most one wrap before a delivery carries at most one after it.
\<close>

theorem acquired_connection_wrapped_once:
  "(isWrapped (get_prop s c ''query'') \<longrightarrow> wrap_acquired c s = s)
   \<and> (\<not> isWrapped (Function q) \<and> heap s r ''query'' = Function q \<longrightarrow>
        heap (wrap_acquired (Object r) s) r ''query'' =
          Function (Shimmed (next_id s) (Prop r ''query'') q (QueryFn (Object r) q)))
   \<and> wrap_acquired c (wrap_acquired c s) = wrap_acquired c s
   \<and> call E (GetConnectionCallbackFn cb) this args (wrap_acquired (arg 1 args) s) =
       call E (GetConnectionCallbackFn cb) this args s
   \<and> (wrap_count (get_prop s c ''query'') \<le> 1 \<longrightarrow>
        wrap_count (get_prop (wrap_acquired c s) c ''query'') \<le> 1)"
proof -
  have 1: "isWrapped (get_prop s c ''query'') \<longrightarrow> wrap_acquired c s = s"
    by (simp add: wrap_acquired_def)
  have 2: "\<not> isWrapped (Function q) \<and> heap s r ''query'' = Function q \<longrightarrow>
        heap (wrap_acquired (Object r) s) r ''query'' =
          Function (Shimmed (next_id s) (Prop r ''query'') q (QueryFn (Object r) q))"
    by (simp add: wrap_acquired_def get_prop_def shimmer_wrap_heap patchQuery_def)
  have 4: "call E (GetConnectionCallbackFn cb) this args (wrap_acquired (arg 1 args) s) =
       call E (GetConnectionCallbackFn cb) this args s"
    by (simp add: wrap_acquired_idem)
  show ?thesis using 1 2 4 wrap_acquired_idem wrap_acquired_count by blast
qed

text \<open>
  On the stand-in driver the pool (object 5) has a wrapped \<^verbatim>\<open>query\<close> and is left
  alone, while the pooled connection (object 6) is wrapped at its first
  delivery; after a second delivery of the same connection its \<^verbatim>\<open>query\<close> still
  carries exactly one wrap.
\<close>

theorem acquired_connection_wrapped_once_witness:
  "isWrapped (get_prop pool_state (Object 5) ''query'')
   \<and> \<not> isWrapped (Function (Native 5))
   \<and> heap pool_state 6 ''query'' = Function (Native 5)
   \<and> wrap_count (get_prop pool_state (Object 5) ''query'') \<le> 1
   \<and> wrap_acquired (Object 5) pool_state = pool_state
   \<and> heap (wrap_acquired (Object 6) pool_state) 6 ''query'' =
       Function (Shimmed 5 (Prop 6 ''query'') (Native 5) (QueryFn (Object 6) (Native 5)))
   \<and> wrap_count (get_prop (wrap_acquired (Object 5) pool_state) (Object 5) ''query'') \<le> 1
   \<and> wrap_count (heap (snd (call stub_env (GetConnectionCallbackFn (Function (Native 7)))
         Undefined [Null, Object 6]
         (snd (call stub_env (GetConnectionCallbackFn (Function (Native 7)))
                 Undefined [Null, Object 6] pool_state)))) 6 ''query'') = 1"
proof -
  have h1: "isWrapped (get_prop pool_state (Object 5) ''query'')"
    by (simp add: get_prop_def pool_state_query)
  have h2: "\<not> isWrapped (Function (Native 5))" by simp
  have h3: "heap pool_state 6 ''query'' = Function (Native 5)"
    by (simp add: pool_state_def run_defs)
  have h4: "wrap_count (get_prop pool_state (Object 5) ''query'') \<le> 1"
    by (simp add: get_prop_def pool_state_query)
  note th = acquired_connection_wrapped_once [of pool_state "Object 5" "Native 5" 6
      stub_env "Function (Native 7)" Undefined "[Null, Object 6]"]
  have c1: "wrap_acquired (Object 5) pool_state = pool_state"
    using th h1 by blast
  have c2: "heap (wrap_acquired (Object 6) pool_state) 6 ''query'' =
       Function (Shimmed 5 (Prop 6 ''query'') (Native 5) (QueryFn (Object 6) (Native 5)))"
    using th h2 h3 by (simp add: pool_state_next_id)
  have c3: "wrap_count (get_prop (wrap_acquired (Object 5) pool_state) (Object 5) ''query'') \<le> 1"
    using th h4 by blast
  have first: "call stub_env (GetConnectionCallbackFn (Function (Native 7)))
                 Undefined [Null, Object 6] pool_state =
      (Return Undefined,
       (wrap_acquired (Object 6) pool_state)
         \<lparr>calls := calls pool_state @ [(7, Undefined, [Null, Object 6])]\<rparr>)"
    by (simp add: arg_def stub_env_def stub_native_def)
  have marked: "isWrapped (get_prop ((wrap_acquired (Object 6) pool_state)
         \<lparr>calls := calls pool_state @ [(7, Undefined, [Null, Object 6])]\<rparr>) (Object 6) ''query'')"
    by (simp add: get_prop_def c2)
  have again: "wrap_acquired (Object 6)
        ((wrap_acquired (Object 6) pool_state)
           \<lparr>calls := calls pool_state @ [(7, Undefined, [Null, Object 6])]\<rparr>) =
      (wrap_acquired (Object 6) pool_state)
           \<lparr>calls := calls pool_state @ [(7, Undefined, [Null, Object 6])]\<rparr>"
    using marked by (rule wrap_acquired_marked)
  have c4: "wrap_count (heap (snd (call stub_env (GetConnectionCallbackFn (Function (Native 7)))
         Undefined [Null, Object 6]
         (snd (call stub_env (GetConnectionCallbackFn (Function (Native 7)))
                 Undefined [Null, Object 6] pool_state)))) 6 ''query'') = 1"
    unfolding first
    by (simp add: arg_def again stub_env_def stub_native_def c2)
  show ?thesis using h1 h2 h3 h4 c1 c2 c3 c4 by blast
qed

section \<open>The wrapped factories\<close>

text \<open>
  C9. Each of the three wrapped factories calls the original factory with the
  arguments it was given and returns or throws exactly what the original does.
  Compared with the state the original leaves, the only properties of the heap
  that differ are \<^verbatim>\<open>query\<close> (connection and pool) and \<^verbatim>\<open>getConnection\<close> (pool
  and cluster) of the object returned, each of which, if it held a function,
  now holds the marked wrapper around that function; spans and the log of
  native calls are those the original leaves.
\<close>

theorem factory_wrappers_transparent:
  assumes o: "call E original Undefined args s = (res, s1)"
  shows "fst (call E (CreateConnectionFn original) this args s) = res
       \<and> fst (call E (CreatePoolFn original) this args s) = res
       \<and> fst (call E (CreatePoolClusterFn original) this args s) = res
       \<and> (heap (snd (call E (CreateConnectionFn original) this args s)) r p = heap s1 r p
          \<or> res = Return (Object r) \<and> p = ''query'')
       \<and> (heap (snd (call E (CreatePoolFn original) this args s)) r p = heap s1 r p
          \<or> res = Return (Object r) \<and> (p = ''query'' \<or> p = ''getConnection''))
       \<and> (heap (snd (call E (CreatePoolClusterFn original) this args s)) r p = heap s1 r p
          \<or> res = Return (Object r) \<and> p = ''getConnection'')
       \<and> (res = Return (Object r) \<and> heap s1 r ''query'' = Function q \<longrightarrow>
            (\<exists>i. heap (snd (call E (CreateConnectionFn original) this args s)) r ''query'' =
                   Function (Shimmed i (Prop r ''query'') q (QueryFn (Object r) q)))
          \<and> (\<exists>i. heap (snd (call E (CreatePoolFn original) this args s)) r ''query'' =
                   Function (Shimmed i (Prop r ''query'') q (QueryFn (Object r) q))))
       \<and> (res = Return (Object r) \<and> heap s1 r ''getConnection'' = Function g \<longrightarrow>
            (\<exists>i. heap (snd (call E (CreatePoolFn original) this args s)) r ''getConnection'' =
                   Function (Shimmed i (Prop r ''getConnection'') g (GetConnectionFn (Object r) g)))
          \<and> (\<exists>i. heap (snd (call E (CreatePoolClusterFn original) this args s)) r
                     ''getConnection'' =
                   Function (Shimmed i (Prop r ''getConnection'') g (GetConnectionFn (Object r) g))))
       \<and> spans (snd (call E (CreateConnectionFn original) this args s)) = spans s1
       \<and> spans (snd (call E (CreatePoolFn original) this args s)) = spans s1
       \<and> spans (snd (call E (CreatePoolClusterFn original) this args s)) = spans s1
       \<and> calls (snd (call E (CreateConnectionFn original) this args s)) = calls s1
       \<and> calls (snd (call E (CreatePoolFn original) this args s)) = calls s1
       \<and> calls (snd (call E (CreatePoolClusterFn original) this args s)) = calls s1"
proof -
  have a: "fst (call E (CreateConnectionFn original) this args s) = res"
      "fst (call E (CreatePoolFn original) this args s) = res"
      "fst (call E (CreatePoolClusterFn original) this args s) = res"
    using o by (cases res; simp)+
  have s1: "snd (call E (CreateConnectionFn original) this args s) =
      (case res of Return v \<Rightarrow> shimmer_wrap v ''query'' (patchQuery v) s1 | Throw e \<Rightarrow> s1)"
    using o by (cases res) simp_all
  have s2: "snd (call E (CreatePoolFn original) this args s) =
      (case res of Return v \<Rightarrow>
          shimmer_wrap v ''getConnection'' (patchGetConnection v)
            (shimmer_wrap v ''query'' (patchQuery v) s1) | Throw e \<Rightarrow> s1)"
    using o by (cases res) simp_all
  have s3: "snd (call E (CreatePoolClusterFn original) this args s) =
      (case res of Return v \<Rightarrow> shimmer_wrap v ''getConnection'' (patchGetConnection v) s1
       | Throw e \<Rightarrow> s1)"
    using o by (cases res) simp_all
  have h1: "heap (snd (call E (CreateConnectionFn original) this args s)) r p = heap s1 r p
          \<or> res = Return (Object r) \<and> p = ''query''"
    unfolding s1 by (cases res; cases "heap s1 r p") (auto simp add: shimmer_wrap_heap)
  have h2: "heap (snd (call E (CreatePoolFn original) this args s)) r p = heap s1 r p
          \<or> res = Return (Object r) \<and> (p = ''query'' \<or> p = ''getConnection'')"
    unfolding s2 by (cases res; cases "heap s1 r p") (auto simp add: shimmer_wrap_heap)
  have h3: "heap (snd (call E (CreatePoolClusterFn original) this args s)) r p = heap s1 r p
          \<or> res = Return (Object r) \<and> p = ''getConnection''"
    unfolding s3 by (cases res; cases "heap s1 r p") (auto simp add: shimmer_wrap_heap)
  have q: "res = Return (Object r) \<and> heap s1 r ''query'' = Function q \<longrightarrow>
            (\<exists>i. heap (snd (call E (CreateConnectionFn original) this args s)) r ''query'' =
                   Function (Shimmed i (Prop r ''query'') q (QueryFn (Object r) q)))
          \<and> (\<exists>i. heap (snd (call E (CreatePoolFn original) this args s)) r ''query'' =
                   Function (Shimmed i (Prop r ''query'') q (QueryFn (Object r) q)))"
    unfolding s1 s2 by (auto simp add: shimmer_wrap_heap patchQuery_def)
  have g: "res = Return (Object r) \<and> heap s1 r ''getConnection'' = Function g \<longrightarrow>
            (\<exists>i. heap (snd (call E (CreatePoolFn original) this args s)) r ''getConnection'' =
                   Function (Shimmed i (Prop r ''getConnection'') g (GetConnectionFn (Object r) g)))
          \<and> (\<exists>i. heap (snd (call E (CreatePoolClusterFn original) this args s)) r
                     ''getConnection'' =
                   Function (Shimmed i (Prop r ''getConnection'') g (GetConnectionFn (Object r) g)))"
    unfolding s2 s3 by (auto simp add: shimmer_wrap_heap patchGetConnection_def)
  have f: "spans (snd (call E (CreateConnectionFn original) this args s)) = spans s1"
      "spans (snd (call E (CreatePoolFn original) this args s)) = spans s1"
      "spans (snd (call E (CreatePoolClusterFn original) this args s)) = spans s1"
      "calls (snd (call E (CreateConnectionFn original) this args s)) = calls s1"
      "calls (snd (call E (CreatePoolFn original) this args s)) = calls s1"
      "calls (snd (call E (CreatePoolClusterFn original) this args s)) = calls s1"
    unfolding s1 s2 s3 by (cases res; simp)+
  show ?thesis using a h1 h2 h3 q g f by blast
qed

text \<open>
  \<^verbatim>\<open>createPool\<close> of the activated stand-in module called with a connection
  string: the native factory (native 1) receives the string and returns
  object 5, the wrapped factory returns object 5 as well, and both methods of
  object 5 hold the marked wrappers of the native methods.
\<close>

theorem factory_wrappers_transparent_witness:
  "call stub_env (Native 1) Undefined [String ''mysql://db''] (snd (patch init_state)) =
     (Return (Object 5),
      snd (call stub_env (Native 1) Undefined [String ''mysql://db''] (snd (patch init_state))))
   \<and> heap (snd (call stub_env (Native 1) Undefined [String ''mysql://db'']
               (snd (patch init_state)))) 5 ''query'' = Function (Native 3)
   \<and> heap (snd (call stub_env (Native 1) Undefined [String ''mysql://db'']
               (snd (patch init_state)))) 5 ''getConnection'' = Function (Native 4)
   \<and> fst (invoke stub_env (Object 0) ''createPool'' [String ''mysql://db'']
            (snd (patch init_state))) = Return (Object 5)
   \<and> calls pool_state = [(1, Undefined, [String ''mysql://db''])]
   \<and> (\<exists>i. heap pool_state 5 ''query'' =
            Function (Shimmed i (Prop 5 ''query'') (Native 3) (QueryFn (Object 5) (Native 3))))
   \<and> (\<exists>i. heap pool_state 5 ''getConnection'' =
            Function (Shimmed i (Prop 5 ''getConnection'') (Native 4)
                        (GetConnectionFn (Object 5) (Native 4))))"
proof -
  have h: "call stub_env (Native 1) Undefined [String ''mysql://db''] (snd (patch init_state)) =
     (Return (Object 5),
      snd (call stub_env (Native 1) Undefined [String ''mysql://db''] (snd (patch init_state))))"
    by (simp add: stub_env_def stub_native_def)
  have hq: "heap (snd (call stub_env (Native 1) Undefined [String ''mysql://db'']
               (snd (patch init_state)))) 5 ''query'' = Function (Native 3)"
    by (simp add: run_defs)
  have hg: "heap (snd (call stub_env (Native 1) Undefined [String ''mysql://db'']
               (snd (patch init_state)))) 5 ''getConnection'' = Function (Native 4)"
    by (simp add: run_defs)
  note th = factory_wrappers_transparent [OF h, of Undefined 5 "''query''" "Native 3" "Native 4"]
  have inv: "invoke stub_env (Object 0) ''createPool'' [String ''mysql://db'']
            (snd (patch init_state)) =
      call stub_env (CreatePoolFn (Native 1)) (Object 0) [String ''mysql://db'']
            (snd (patch init_state))"
    by (simp add: run_defs)
  have th': "fst (call stub_env (CreatePoolFn (Native 1)) Undefined [String ''mysql://db'']
            (snd (patch init_state))) = Return (Object 5)"
    "\<exists>i. heap (snd (call stub_env (CreatePoolFn (Native 1)) Undefined [String ''mysql://db'']
            (snd (patch init_state)))) 5 ''query'' =
         Function (Shimmed i (Prop 5 ''query'') (Native 3) (QueryFn (Object 5) (Native 3)))"
    "\<exists>i. heap (snd (call stub_env (CreatePoolFn (Native 1)) Undefined [String ''mysql://db'']
            (snd (patch init_state)))) 5 ''getConnection'' =
         Function (Shimmed i (Prop 5 ''getConnection'') (Native 4)
                     (GetConnectionFn (Object 5) (Native 4)))"
    using th hq hg by blast+
  have this_irrelevant: "call stub_env (CreatePoolFn (Native 1)) (Object 0) [String ''mysql://db'']
            (snd (patch init_state)) =
       call stub_env (CreatePoolFn (Native 1)) Undefined [String ''mysql://db'']
            (snd (patch init_state))"
    by simp
  have c1: "fst (invoke stub_env (Object 0) ''createPool'' [String ''mysql://db'']
            (snd (patch init_state))) = Return (Object 5)"
    unfolding inv this_irrelevant by (rule th')
  have ps: "pool_state = snd (call stub_env (CreatePoolFn (Native 1)) Undefined
            [String ''mysql://db''] (snd (patch init_state)))"
    unfolding pool_state_def inv this_irrelevant ..
  have c2: "\<exists>i. heap pool_state 5 ''query'' =
            Function (Shimmed i (Prop 5 ''query'') (Native 3) (QueryFn (Object 5) (Native 3)))"
    unfolding ps by (rule th')
  have c3: "\<exists>i. heap pool_state 5 ''getConnection'' =
            Function (Shimmed i (Prop 5 ''getConnection'') (Native 4)
                        (GetConnectionFn (Object 5) (Native 4)))"
    unfolding ps by (rule th')
  show ?thesis using h hq hg c1 c2 c3 pool_state_calls by blast
qed

section \<open>Queries with a callback\<close>

text \<open>
  C1. While enabled, a query call with a function as second argument, or else
  as third argument, starts exactly one span (not ended, without status) and
  calls the original query with that callback replaced by a shim. Whenever the
  shim is later called, it sets the status of that span to \<^verbatim>\<open>OK\<close> if its first
  argument is falsy and to \<^verbatim>\<open>UNKNOWN\<close> with the message of the error otherwise,
  ends the span once, and then calls the caller's callback with the very
  arguments it received.
\<close>

theorem callback_query_span_lifecycle:
  assumes on: "enabled s"
    and k: "k = (if is_function (arg 1 args) then 1 else 2)"
    and cb: "arg k args = Function cb"
  shows "call E (QueryFn connection originalQuery) this args s =
           call E originalQuery connection
             (args[k := Function (Shimmed (next_id s) (ArgSlot k) cb
                                    (CallbackQueryFn (length (spans s)) cb))])
             ((snd (start_query_span E connection args s))\<lparr>next_id := Suc (next_id s)\<rparr>)
       \<and> (\<exists>sp. spans (snd (start_query_span E connection args s)) = spans s @ [sp]
               \<and> ends sp = 0 \<and> status sp = None)
       \<and> (length (spans s) < length (spans t) \<longrightarrow>
            call E (Shimmed (next_id s) (ArgSlot k) cb (CallbackQueryFn (length (spans s)) cb))
                this' cargs t =
            call E cb Undefined cargs
              (t\<lparr>spans := (spans t)[length (spans s) := (spans t ! length (spans s))
                   \<lparr>status := Some (if truthy (arg 0 cargs)
                                     then \<lparr>code = UNKNOWN,
                                           message = Some (get_prop t (arg 0 cargs) ''message'')\<rparr>
                                     else \<lparr>code = OK, message = None\<rparr>),
                     ends := Suc (ends (spans t ! length (spans s)))\<rparr>]\<rparr>))"
proof -
  have len: "length args \<noteq> 1"
    using k cb by (auto simp add: arg_def split: if_splits)
  have 1: "call E (QueryFn connection originalQuery) this args s =
           call E originalQuery connection
             (args[k := Function (Shimmed (next_id s) (ArgSlot k) cb
                                    (CallbackQueryFn (length (spans s)) cb))])
             ((snd (start_query_span E connection args s))\<lparr>next_id := Suc (next_id s)\<rparr>)"
  proof (cases "is_function (arg 1 args)")
    case True
    then show ?thesis using on k cb len
      by (simp add: start_query_span_eq shimmer_wrap_args_def patchCallbackQuery_def)
  next
    case False
    then show ?thesis using on k cb len
      by (simp add: start_query_span_eq shimmer_wrap_args_def patchCallbackQuery_def)
  qed
  have 2: "\<exists>sp. spans (snd (start_query_span E connection args s)) = spans s @ [sp]
               \<and> ends sp = 0 \<and> status sp = None"
    by (simp add: start_query_span_eq)
  have 3: "length (spans s) < length (spans t) \<longrightarrow>
            call E (Shimmed (next_id s) (ArgSlot k) cb (CallbackQueryFn (length (spans s)) cb))
                this' cargs t =
            call E cb Undefined cargs
              (t\<lparr>spans := (spans t)[length (spans s) := (spans t ! length (spans s))
                   \<lparr>status := Some (if truthy (arg 0 cargs)
                                     then \<lparr>code = UNKNOWN,
                                           message = Some (get_prop t (arg 0 cargs) ''message'')\<rparr>
                                     else \<lparr>code = OK, message = None\<rparr>),
                     ends := Suc (ends (spans t ! length (spans s)))\<rparr>]\<rparr>)"
    by (simp add: setStatus_def span_end_def upd_span_def)
  show ?thesis using 1 2 3 by blast
qed

text \<open>
  Scenario B of the specification on the stand-in driver: \<^verbatim>\<open>query("SELECT 1", cb)\<close>
  on the pool reaches the native query with the shim in place of \<^verbatim>\<open>cb\<close> and
  leaves one open span; when the driver then calls the shim with the error
  "connection lost", the span has the error status with that message, has been
  ended once, and \<^verbatim>\<open>cb\<close> has received the error.
\<close>

theorem callback_query_span_lifecycle_witness:
  "enabled pool_state
   \<and> (1::nat) = (if is_function (arg 1 [String ''SELECT 1'', Function (Native 7)]) then 1 else 2)
   \<and> arg 1 [String ''SELECT 1'', Function (Native 7)] = Function (Native 7)
   \<and> length (spans pool_state) < length (spans callback_state)
   \<and> calls callback_state =
       [(1, Undefined, [String ''mysql://db'']),
        (3, Object 5, [String ''SELECT 1'',
                       Function (Shimmed 5 (ArgSlot 1) (Native 7) (CallbackQueryFn 0 (Native 7)))])]
   \<and> map ends (spans callback_state) = [0]
   \<and> map ends (spans (snd (call stub_env
         (Shimmed 5 (ArgSlot 1) (Native 7) (CallbackQueryFn 0 (Native 7)))
         Undefined [Object 8] callback_state))) = [1]
   \<and> map status (spans (snd (call stub_env
         (Shimmed 5 (ArgSlot 1) (Native 7) (CallbackQueryFn 0 (Native 7)))
         Undefined [Object 8] callback_state))) =
       [Some \<lparr>code = UNKNOWN, message = Some (String ''connection lost'')\<rparr>]
   \<and> calls (snd (call stub_env
         (Shimmed 5 (ArgSlot 1) (Native 7) (CallbackQueryFn 0 (Native 7)))
         Undefined [Object 8] callback_state)) =
       calls callback_state @ [(7, Undefined, [Object 8])]"
proof -
  have h2: "(1::nat) = (if is_function (arg 1 [String ''SELECT 1'', Function (Native 7)]) then 1 else 2)"
    by (simp add: arg_def)
  have h3: "arg 1 [String ''SELECT 1'', Function (Native 7)] = Function (Native 7)"
    by (simp add: arg_def)
  note th = callback_query_span_lifecycle [OF pool_state_enabled h2 h3,
      of stub_env "Object 5" "Native 3" "Object 5" callback_state Undefined "[Object 8]"]
  have inv: "callback_state =
      snd (call stub_env (QueryFn (Object 5) (Native 3)) (Object 5)
             [String ''SELECT 1'', Function (Native 7)] pool_state)"
    by (simp add: callback_state_def invoke_def get_prop_def pool_state_query del: call.simps) simp
  have run: "callback_state =
      snd (call stub_env (Native 3) (Object 5)
             [String ''SELECT 1'',
              Function (Shimmed 5 (ArgSlot 1) (Native 7) (CallbackQueryFn 0 (Native 7)))]
             ((snd (start_query_span stub_env (Object 5)
                      [String ''SELECT 1'', Function (Native 7)] pool_state))
                \<lparr>next_id := Suc (next_id pool_state)\<rparr>))"
    using th unfolding inv by (simp add: pool_state_spans pool_state_next_id)
  have sp: "spans callback_state =
      [\<lparr>name = String ''mysql.query'', kind = CLIENT,
        attributes = (COMMON_ATTRIBUTES ++ Map.empty)(DB_STATEMENT \<mapsto> String ''SELECT 1''),
        status = None, ends = 0\<rparr>]"
    unfolding run
    by (simp add: start_query_span_eq pool_state_spans stub_env_def stub_native_def arg_def
          getDbStatement_def query_values_def)
  have cl: "calls callback_state =
       [(1, Undefined, [String ''mysql://db'']),
        (3, Object 5, [String ''SELECT 1'',
                       Function (Shimmed 5 (ArgSlot 1) (Native 7) (CallbackQueryFn 0 (Native 7)))])]"
    unfolding run
    by (simp add: start_query_span_eq pool_state_calls stub_env_def stub_native_def)
  have hp: "heap callback_state 8 ''message'' = String ''connection lost''"
    unfolding run
    by (simp add: start_query_span_eq stub_env_def stub_native_def pool_state_def run_defs)
  have h4: "length (spans pool_state) < length (spans callback_state)"
    by (simp add: sp pool_state_spans)
  have del: "call stub_env
         (Shimmed 5 (ArgSlot 1) (Native 7) (CallbackQueryFn 0 (Native 7)))
         Undefined [Object 8] callback_state =
       call stub_env (Native 7) Undefined [Object 8]
         (callback_state\<lparr>spans := (spans callback_state)[0 := (spans callback_state ! 0)
             \<lparr>status := Some \<lparr>code = UNKNOWN, message = Some (String ''connection lost'')\<rparr>,
               ends := Suc (ends (spans callback_state ! 0))\<rparr>]\<rparr>)"
    using th h4 by (simp add: pool_state_spans pool_state_next_id arg_def get_prop_def hp
        del: call.simps)
  have c1: "map ends (spans (snd (call stub_env
         (Shimmed 5 (ArgSlot 1) (Native 7) (CallbackQueryFn 0 (Native 7)))
         Undefined [Object 8] callback_state))) = [1]"
    unfolding del by (simp add: sp stub_env_def stub_native_def)
  have c2: "map status (spans (snd (call stub_env
         (Shimmed 5 (ArgSlot 1) (Native 7) (CallbackQueryFn 0 (Native 7)))
         Undefined [Object 8] callback_state))) =
       [Some \<lparr>code = UNKNOWN, message = Some (String ''connection lost'')\<rparr>]"
    unfolding del by (simp add: sp stub_env_def stub_native_def)
  have c3: "calls (snd (call stub_env
         (Shimmed 5 (ArgSlot 1) (Native 7) (CallbackQueryFn 0 (Native 7)))
         Undefined [Object 8] callback_state)) =
       calls callback_state @ [(7, Undefined, [Object 8])]"
    unfolding del by (simp add: stub_env_def stub_native_def)
  have c0: "map ends (spans callback_state) = [0]"
    by (simp add: sp)
  show ?thesis using pool_state_enabled h2 h3 h4 cl c0 c1 c2 c3 by blast
qed

section \<open>Streaming queries\<close>

text \<open>
  C2. While enabled, a query call with exactly one argument starts exactly one
  span and, when the original query returns its emitter, registers on it an
  \<^verbatim>\<open>error\<close> listener and an \<^verbatim>\<open>end\<close> listener for that span and returns the
  emitter. The \<^verbatim>\<open>error\<close> listener sets the status of the span to \<^verbatim>\<open>UNKNOWN\<close> with
  the message of the error and leaves the count of ends as it is; the \<^verbatim>\<open>end\<close>
  listener ends the span and leaves its status as it is.
\<close>

theorem streaming_query_span_lifecycle:
  assumes on: "enabled s"
    and one: "length args = 1"
    and ret: "call E originalQuery connection args (snd (start_query_span E connection args s)) =
                (Return (Object em), t)"
  shows "call E (QueryFn connection originalQuery) this args s =
           (Return (Object em),
            t\<lparr>listeners := listeners t @
                 [(em, ''error'', OnErrorFn (length (spans s))),
                  (em, ''end'', OnEndFn (length (spans s)))]\<rparr>)
       \<and> (\<exists>sp. spans (snd (start_query_span E connection args s)) = spans s @ [sp]
               \<and> ends sp = 0 \<and> status sp = None)
       \<and> (length (spans s) < length (spans u) \<and> err \<noteq> Undefined \<and> err \<noteq> Null \<longrightarrow>
            call E (OnErrorFn (length (spans s))) this' [err] u =
              (Return (SpanRef (length (spans s))),
               u\<lparr>spans := (spans u)[length (spans s) := (spans u ! length (spans s))
                    \<lparr>status := Some \<lparr>code = UNKNOWN,
                                     message = Some (get_prop u err ''message'')\<rparr>\<rparr>]\<rparr>))
       \<and> (length (spans s) < length (spans u) \<longrightarrow>
            call E (OnEndFn (length (spans s))) this' cargs u =
              (Return Undefined,
               u\<lparr>spans := (spans u)[length (spans s) := (spans u ! length (spans s))
                    \<lparr>ends := Suc (ends (spans u ! length (spans s)))\<rparr>]\<rparr>))"
proof -
  have 1: "call E (QueryFn connection originalQuery) this args s =
           (Return (Object em),
            t\<lparr>listeners := listeners t @
                 [(em, ''error'', OnErrorFn (length (spans s))),
                  (em, ''end'', OnEndFn (length (spans s)))]\<rparr>)"
    using on one ret by (simp add: start_query_span_eq emitter_on_def)
  have 2: "\<exists>sp. spans (snd (start_query_span E connection args s)) = spans s @ [sp]
               \<and> ends sp = 0 \<and> status sp = None"
    by (simp add: start_query_span_eq)
  have 3: "length (spans s) < length (spans u) \<and> err \<noteq> Undefined \<and> err \<noteq> Null \<longrightarrow>
            call E (OnErrorFn (length (spans s))) this' [err] u =
              (Return (SpanRef (length (spans s))),
               u\<lparr>spans := (spans u)[length (spans s) := (spans u ! length (spans s))
                    \<lparr>status := Some \<lparr>code = UNKNOWN,
                                     message = Some (get_prop u err ''message'')\<rparr>\<rparr>]\<rparr>)"
    by (simp add: setStatus_def upd_span_def arg_def)
  have 4: "length (spans s) < length (spans u) \<longrightarrow>
            call E (OnEndFn (length (spans s))) this' cargs u =
              (Return Undefined,
               u\<lparr>spans := (spans u)[length (spans s) := (spans u ! length (spans s))
                    \<lparr>ends := Suc (ends (spans u ! length (spans s)))\<rparr>]\<rparr>)"
    by (simp add: span_end_def upd_span_def)
  show ?thesis using 1 2 3 4 by blast
qed

text \<open>
  \<^verbatim>\<open>query("SELECT 1")\<close> on the pool of the stand-in driver returns the emitter 9
  with the two listeners registered and one open span. When the emitter emits
  \<^verbatim>\<open>error\<close> with the error "connection lost", the span has the error status and
  is still open; when it then emits \<^verbatim>\<open>end\<close>, the span has been ended once and
  still has the error status.
\<close>

theorem streaming_query_span_lifecycle_witness:
  "enabled pool_state
   \<and> length [String ''SELECT 1''] = 1
   \<and> fst (call stub_env (Native 3) (Object 5) [String ''SELECT 1'']
         (snd (start_query_span stub_env (Object 5) [String ''SELECT 1''] pool_state))) =
       Return (Object 9)
   \<and> fst (invoke stub_env (Object 5) ''query'' [String ''SELECT 1''] pool_state) = Return (Object 9)
   \<and> listeners stream_state = [(9, ''error'', OnErrorFn 0), (9, ''end'', OnEndFn 0)]
   \<and> map ends (spans stream_state) = [0]
   \<and> map status (spans stream_state) = [None]
   \<and> map ends (spans (snd (emit stub_env 9 ''error'' [Object 8] stream_state))) = [0]
   \<and> map status (spans (snd (emit stub_env 9 ''error'' [Object 8] stream_state))) =
       [Some \<lparr>code = UNKNOWN, message = Some (String ''connection lost'')\<rparr>]
   \<and> map ends (spans (snd (emit stub_env 9 ''end'' []
         (snd (emit stub_env 9 ''error'' [Object 8] stream_state))))) = [1]
   \<and> map status (spans (snd (emit stub_env 9 ''end'' []
         (snd (emit stub_env 9 ''error'' [Object 8] stream_state))))) =
       [Some \<lparr>code = UNKNOWN, message = Some (String ''connection lost'')\<rparr>]"
proof -
  have h2: "length [String ''SELECT 1''] = 1" by simp
  have h3: "call stub_env (Native 3) (Object 5) [String ''SELECT 1'']
         (snd (start_query_span stub_env (Object 5) [String ''SELECT 1''] pool_state)) =
       (Return (Object 9),
        snd (call stub_env (Native 3) (Object 5) [String ''SELECT 1'']
         (snd (start_query_span stub_env (Object 5) [String ''SELECT 1''] pool_state))))"
    by (simp add: stub_env_def stub_native_def)
  note th = streaming_query_span_lifecycle [OF pool_state_enabled h2 h3,
      of "Object 5" stream_state "Object 8" "Object 9" "[]"]
  have inv: "invoke stub_env (Object 5) ''query'' [String ''SELECT 1''] pool_state =
      call stub_env (QueryFn (Object 5) (Native 3)) (Object 5) [String ''SELECT 1''] pool_state"
    by (simp add: invoke_def get_prop_def pool_state_query del: call.simps) simp
  have run: "invoke stub_env (Object 5) ''query'' [String ''SELECT 1''] pool_state =
      (Return (Object 9),
       (snd (call stub_env (Native 3) (Object 5) [String ''SELECT 1'']
         (snd (start_query_span stub_env (Object 5) [String ''SELECT 1''] pool_state))))
       \<lparr>listeners := listeners (snd (call stub_env (Native 3) (Object 5) [String ''SELECT 1'']
         (snd (start_query_span stub_env (Object 5) [String ''SELECT 1''] pool_state)))) @
          [(9, ''error'', OnErrorFn 0), (9, ''end'', OnEndFn 0)]\<rparr>)"
    unfolding inv using th by (simp add: pool_state_spans del: call.simps)
  have c1: "fst (invoke stub_env (Object 5) ''query'' [String ''SELECT 1''] pool_state) =
      Return (Object 9)"
    unfolding run by simp
  have c0: "fst (call stub_env (Native 3) (Object 5) [String ''SELECT 1'']
         (snd (start_query_span stub_env (Object 5) [String ''SELECT 1''] pool_state))) =
       Return (Object 9)"
    by (simp add: stub_env_def stub_native_def)
  have ls: "listeners stream_state = [(9, ''error'', OnErrorFn 0), (9, ''end'', OnEndFn 0)]"
    unfolding stream_state_def run
    by (simp add: start_query_span_eq pool_state_listeners stub_env_def stub_native_def)
  have sp: "spans stream_state =
      [\<lparr>name = String ''mysql.query'', kind = CLIENT,
        attributes = (COMMON_ATTRIBUTES ++ Map.empty)(DB_STATEMENT \<mapsto> String ''SELECT 1''),
        status = None, ends = 0\<rparr>]"
    unfolding stream_state_def run
    by (simp add: start_query_span_eq pool_state_spans stub_env_def stub_native_def arg_def
          getDbStatement_def query_values_def)
  have hp: "heap stream_state 8 ''message'' = String ''connection lost''"
    unfolding stream_state_def run
    by (simp add: start_query_span_eq stub_env_def stub_native_def pool_state_def run_defs)
  have e1: "emit stub_env 9 ''error'' [Object 8] stream_state =
      (Return (Boolean True),
       stream_state\<lparr>spans :=
         [\<lparr>name = String ''mysql.query'', kind = CLIENT,
           attributes = (COMMON_ATTRIBUTES ++ Map.empty)(DB_STATEMENT \<mapsto> String ''SELECT 1''),
           status = Some \<lparr>code = UNKNOWN, message = Some (String ''connection lost'')\<rparr>,
           ends = 0\<rparr>]\<rparr>)"
    by (simp add: emit_def listeners_of_def ls sp hp arg_def setStatus_def upd_span_def get_prop_def)
  have e2: "spans (snd (emit stub_env 9 ''end'' []
         (snd (emit stub_env 9 ''error'' [Object 8] stream_state)))) =
         [\<lparr>name = String ''mysql.query'', kind = CLIENT,
           attributes = (COMMON_ATTRIBUTES ++ Map.empty)(DB_STATEMENT \<mapsto> String ''SELECT 1''),
           status = Some \<lparr>code = UNKNOWN, message = Some (String ''connection lost'')\<rparr>,
           ends = 1\<rparr>]"
    unfolding e1 by (simp add: emit_def listeners_of_def ls span_end_def upd_span_def)
  have c2: "map ends (spans stream_state) = [0]" "map status (spans stream_state) = [None]"
    by (simp_all add: sp)
  have c3: "map ends (spans (snd (emit stub_env 9 ''error'' [Object 8] stream_state))) = [0]"
    "map status (spans (snd (emit stub_env 9 ''error'' [Object 8] stream_state))) =
       [Some \<lparr>code = UNKNOWN, message = Some (String ''connection lost'')\<rparr>]"
    unfolding e1 by simp_all
  have c4: "map ends (spans (snd (emit stub_env 9 ''end'' []
         (snd (emit stub_env 9 ''error'' [Object 8] stream_state))))) = [1]"
    "map status (spans (snd (emit stub_env 9 ''end'' []
         (snd (emit stub_env 9 ''error'' [Object 8] stream_state))))) =
       [Some \<lparr>code = UNKNOWN, message = Some (String ''connection lost'')\<rparr>]"
    unfolding e2 by simp_all
  show ?thesis using pool_state_enabled h2 c0 c1 ls c2 c3 c4 by blast
qed

section \<open>A query with values and no callback\<close>

text \<open>
  C3. The call \<^verbatim>\<open>query("SELECT ?", [5])\<close> has two arguments and no function among
  them, so it takes neither the streaming branch (which asks for exactly one
  argument) nor a callback branch. On the stand-in driver the call returns the
  emitter 9 and starts one span whose statement attribute is \<^verbatim>\<open>SELECT 5\<close>, but
  no listener is registered, and the span is still open after the emitter has
  emitted \<^verbatim>\<open>end\<close>.
\<close>

theorem values_without_callback_span_never_ended:
  "enabled pool_state
   \<and> fst (invoke stub_env (Object 5) ''query'' [String ''SELECT ?'', Array [Number 5]] pool_state) =
       Return (Object 9)
   \<and> length (spans values_only_state) = 1
   \<and> attributes (spans values_only_state ! 0) DB_STATEMENT = Some (String ''SELECT 5'')
   \<and> listeners values_only_state = []
   \<and> ends (spans values_only_state ! 0) = 0
   \<and> ends (spans (snd (emit stub_env 9 ''end'' [] values_only_state)) ! 0) = 0
   \<and> status (spans (snd (emit stub_env 9 ''end'' [] values_only_state)) ! 0) = None"
proof -
  have inv: "invoke stub_env (Object 5) ''query'' [String ''SELECT ?'', Array [Number 5]] pool_state =
      call stub_env (QueryFn (Object 5) (Native 3)) (Object 5)
        [String ''SELECT ?'', Array [Number 5]] pool_state"
    by (simp add: invoke_def get_prop_def pool_state_query del: call.simps) simp
  have run: "call stub_env (QueryFn (Object 5) (Native 3)) (Object 5)
        [String ''SELECT ?'', Array [Number 5]] pool_state =
      call stub_env (Native 3) (Object 5) [String ''SELECT ?'', Array [Number 5]]
        (snd (start_query_span stub_env (Object 5) [String ''SELECT ?'', Array [Number 5]] pool_state))"
    using pool_state_enabled by (simp add: start_query_span_eq arg_def)
  have r: "fst (invoke stub_env (Object 5) ''query'' [String ''SELECT ?'', Array [Number 5]]
             pool_state) = Return (Object 9)"
    unfolding inv run by (simp add: stub_env_def stub_native_def)
  have sp: "spans values_only_state =
      [\<lparr>name = String ''mysql.query'', kind = CLIENT,
        attributes = (COMMON_ATTRIBUTES ++ Map.empty)(DB_STATEMENT \<mapsto> String ''SELECT 5''),
        status = None, ends = 0\<rparr>]"
    unfolding values_only_state_def inv run
    by (simp add: start_query_span_eq pool_state_spans stub_env_def stub_native_def
          stub_format_def arg_def getDbStatement_def query_values_def)
  have ls: "listeners values_only_state = []"
    unfolding values_only_state_def inv run
    by (simp add: start_query_span_eq pool_state_listeners stub_env_def stub_native_def)
  have em: "emit stub_env 9 ''end'' [] values_only_state = (Return (Boolean False), values_only_state)"
    by (simp add: emit_def listeners_of_def ls)
  show ?thesis using pool_state_enabled r by (simp add: sp ls em)
qed

section \<open>The statement attribute\<close>

text \<open>
  C7. The statement attribute is the query text rendered against the single
  second-argument value when a callback follows it: \<^verbatim>\<open>query("SELECT ?", 5, cb)\<close>
  on the stand-in driver records \<^verbatim>\<open>SELECT 5\<close>. The same value supplied without a
  callback is missed: for \<^verbatim>\<open>query("SELECT ?", 5)\<close> the third argument is
  \<^verbatim>\<open>undefined\<close>, the code takes no bind values (line 222), and the statement
  attribute is the text \<^verbatim>\<open>SELECT ?\<close>, not the text rendered against the value.
\<close>

theorem single_value_without_callback_not_rendered:
  "enabled pool_state
   \<and> query_values [String ''SELECT ?'', Number 5] = None
   \<and> attributes (spans (snd (invoke stub_env (Object 5) ''query''
         [String ''SELECT ?'', Number 5] pool_state)) ! 0) DB_STATEMENT = Some (String ''SELECT ?'')
   \<and> format stub_env (String ''SELECT ?'') (Array [Number 5]) = String ''SELECT 5''
   \<and> query_values [String ''SELECT ?'', Number 5, Function (Native 7)] = Some (Array [Number 5])
   \<and> attributes (spans (snd (invoke stub_env (Object 5) ''query''
         [String ''SELECT ?'', Number 5, Function (Native 7)] pool_state)) ! 0) DB_STATEMENT =
       Some (String ''SELECT 5'')"
proof -
  have inv: "invoke stub_env (Object 5) ''query'' a pool_state =
      call stub_env (QueryFn (Object 5) (Native 3)) (Object 5) a pool_state" for a
    by (simp add: invoke_def get_prop_def pool_state_query del: call.simps) simp
  have run2: "call stub_env (QueryFn (Object 5) (Native 3)) (Object 5)
        [String ''SELECT ?'', Number 5] pool_state =
      call stub_env (Native 3) (Object 5) [String ''SELECT ?'', Number 5]
        (snd (start_query_span stub_env (Object 5) [String ''SELECT ?'', Number 5] pool_state))"
    using pool_state_enabled by (simp add: start_query_span_eq arg_def)
  have run3: "call stub_env (QueryFn (Object 5) (Native 3)) (Object 5)
        [String ''SELECT ?'', Number 5, Function (Native 7)] pool_state =
      call stub_env (Native 3) (Object 5)
        [String ''SELECT ?'', Number 5,
         Function (Shimmed 5 (ArgSlot 2) (Native 7) (CallbackQueryFn 0 (Native 7)))]
        ((snd (start_query_span stub_env (Object 5)
                 [String ''SELECT ?'', Number 5, Function (Native 7)] pool_state))
           \<lparr>next_id := 6\<rparr>)"
    using pool_state_enabled
    by (simp add: start_query_span_eq arg_def shimmer_wrap_args_def patchCallbackQuery_def
          pool_state_spans pool_state_next_id)
  have v2: "query_values [String ''SELECT ?'', Number 5] = None"
    by (simp add: query_values_def arg_def)
  have v3: "query_values [String ''SELECT ?'', Number 5, Function (Native 7)] =
      Some (Array [Number 5])"
    by (simp add: query_values_def arg_def)
  have sp2: "attributes (spans (snd (invoke stub_env (Object 5) ''query''
         [String ''SELECT ?'', Number 5] pool_state)) ! 0) DB_STATEMENT = Some (String ''SELECT ?'')"
    unfolding inv run2
    by (simp add: start_query_span_eq pool_state_spans stub_env_def stub_native_def
          arg_def getDbStatement_def v2)
  have sp3: "attributes (spans (snd (invoke stub_env (Object 5) ''query''
         [String ''SELECT ?'', Number 5, Function (Native 7)] pool_state)) ! 0) DB_STATEMENT =
       Some (String ''SELECT 5'')"
    unfolding inv run3
    by (simp add: start_query_span_eq pool_state_spans stub_env_def stub_native_def
          stub_format_def arg_def getDbStatement_def v3)
  have f: "format stub_env (String ''SELECT ?'') (Array [Number 5]) = String ''SELECT 5''"
    by (simp add: stub_env_def stub_format_def)
  show ?thesis using pool_state_enabled v2 v3 sp2 sp3 f by blast
qed

section \<open>Activation and deactivation, repeated\<close>

text \<open>
  C6, as the claim states it, fails: \<^verbatim>\<open>patch\<close> hands each factory to shimmer
  without looking at the wrapped marker, so after two activations in a row
  \<^verbatim>\<open>createConnection\<close> of the stand-in module carries two wraps, not one.
\<close>

theorem double_activation_counterexample:
  "wrap_count (heap (snd (patch init_state)) 0 ''createConnection'') = 1
   \<and> wrap_count (heap (snd (patch (snd (patch init_state)))) 0 ''createConnection'') = 2"
  by (simp add: run_defs)

text \<open>
  C6, amended. Activation and deactivation are total (neither has an error
  result). Unwrapping a property that does not hold a marked function, because
  it was never wrapped or has been unwrapped, changes nothing; deactivation in
  a state where the plugin is disabled and no factory is marked changes
  nothing. Activation on a module whose three factories are functions returns
  the module, enables the plugin and puts one more wrap on each factory,
  whether or not the factory is already wrapped: after two activations each
  factory carries two wraps more than before.
\<close>

theorem activation_stacks_unwrap_idempotent:
  "(\<not> isWrapped (get_prop s nodule nm) \<longrightarrow> shimmer_unwrap nodule nm s = s)
   \<and> (\<not> enabled s
        \<and> \<not> isWrapped (get_prop s (moduleExports s) ''createConnection'')
        \<and> \<not> isWrapped (get_prop s (moduleExports s) ''createPool'')
        \<and> \<not> isWrapped (get_prop s (moduleExports s) ''createPoolCluster'')
      \<longrightarrow> unpatch s = s)
   \<and> (moduleExports s = Object m
        \<and> heap s m ''createConnection'' = Function f1
        \<and> heap s m ''createPool'' = Function f2
        \<and> heap s m ''createPoolCluster'' = Function f3
      \<longrightarrow> fst (patch s) = Object m \<and> enabled (snd (patch s))
        \<and> heap (snd (patch s)) m ''createConnection'' =
            Function (Shimmed (next_id s) (Prop m ''createConnection'') f1 (CreateConnectionFn f1))
        \<and> heap (snd (patch s)) m ''createPool'' =
            Function (Shimmed (Suc (next_id s)) (Prop m ''createPool'') f2 (CreatePoolFn f2))
        \<and> heap (snd (patch s)) m ''createPoolCluster'' =
            Function (Shimmed (Suc (Suc (next_id s))) (Prop m ''createPoolCluster'') f3
                        (CreatePoolClusterFn f3))
        \<and> wrap_count (heap (snd (patch (snd (patch s)))) m ''createConnection'') =
            Suc (Suc (fn_wraps f1))
        \<and> wrap_count (heap (snd (patch (snd (patch s)))) m ''createPool'') =
            Suc (Suc (fn_wraps f2))
        \<and> wrap_count (heap (snd (patch (snd (patch s)))) m ''createPoolCluster'') =
            Suc (Suc (fn_wraps f3)))"
proof -
  have 1: "\<not> isWrapped (get_prop s nodule nm) \<longrightarrow> shimmer_unwrap nodule nm s = s"
    by (simp add: unwrap_not_wrapped)
  have 2: "\<not> enabled s
        \<and> \<not> isWrapped (get_prop s (moduleExports s) ''createConnection'')
        \<and> \<not> isWrapped (get_prop s (moduleExports s) ''createPool'')
        \<and> \<not> isWrapped (get_prop s (moduleExports s) ''createPoolCluster'')
      \<longrightarrow> unpatch s = s"
  proof
    assume a: "\<not> enabled s
        \<and> \<not> isWrapped (get_prop s (moduleExports s) ''createConnection'')
        \<and> \<not> isWrapped (get_prop s (moduleExports s) ''createPool'')
        \<and> \<not> isWrapped (get_prop s (moduleExports s) ''createPoolCluster'')"
    then have e: "s\<lparr>enabled := False\<rparr> = s" by simp
    show "unpatch s = s"
      using a by (simp add: unpatch_def Let_def e unwrap_not_wrapped)
  qed
  have 3: "moduleExports s = Object m
        \<and> heap s m ''createConnection'' = Function f1
        \<and> heap s m ''createPool'' = Function f2
        \<and> heap s m ''createPoolCluster'' = Function f3
      \<longrightarrow> fst (patch s) = Object m \<and> enabled (snd (patch s))
        \<and> heap (snd (patch s)) m ''createConnection'' =
            Function (Shimmed (next_id s) (Prop m ''createConnection'') f1 (CreateConnectionFn f1))
        \<and> heap (snd (patch s)) m ''createPool'' =
            Function (Shimmed (Suc (next_id s)) (Prop m ''createPool'') f2 (CreatePoolFn f2))
        \<and> heap (snd (patch s)) m ''createPoolCluster'' =
            Function (Shimmed (Suc (Suc (next_id s))) (Prop m ''createPoolCluster'') f3
                        (CreatePoolClusterFn f3))
        \<and> wrap_count (heap (snd (patch (snd (patch s)))) m ''createConnection'') =
            Suc (Suc (fn_wraps f1))
        \<and> wrap_count (heap (snd (patch (snd (patch s)))) m ''createPool'') =
            Suc (Suc (fn_wraps f2))
        \<and> wrap_count (heap (snd (patch (snd (patch s)))) m ''createPoolCluster'') =
            Suc (Suc (fn_wraps f3))"
  proof
    assume a: "moduleExports s = Object m
        \<and> heap s m ''createConnection'' = Function f1
        \<and> heap s m ''createPool'' = Function f2
        \<and> heap s m ''createPoolCluster'' = Function f3"
    note p1 = patch_heap [of s m f1 f2 f3]
    have b: "moduleExports (snd (patch s)) = Object m" using a p1 by blast
    note p2 = patch_heap [of "snd (patch s)" m
        "Shimmed (next_id s) (Prop m ''createConnection'') f1 (CreateConnectionFn f1)"
        "Shimmed (Suc (next_id s)) (Prop m ''createPool'') f2 (CreatePoolFn f2)"
        "Shimmed (Suc (Suc (next_id s))) (Prop m ''createPoolCluster'') f3 (CreatePoolClusterFn f3)"]
    show "fst (patch s) = Object m \<and> enabled (snd (patch s))
        \<and> heap (snd (patch s)) m ''createConnection'' =
            Function (Shimmed (next_id s) (Prop m ''createConnection'') f1 (CreateConnectionFn f1))
        \<and> heap (snd (patch s)) m ''createPool'' =
            Function (Shimmed (Suc (next_id s)) (Prop m ''createPool'') f2 (CreatePoolFn f2))
        \<and> heap (snd (patch s)) m ''createPoolCluster'' =
            Function (Shimmed (Suc (Suc (next_id s))) (Prop m ''createPoolCluster'') f3
                        (CreatePoolClusterFn f3))
        \<and> wrap_count (heap (snd (patch (snd (patch s)))) m ''createConnection'') =
            Suc (Suc (fn_wraps f1))
        \<and> wrap_count (heap (snd (patch (snd (patch s)))) m ''createPool'') =
            Suc (Suc (fn_wraps f2))
        \<and> wrap_count (heap (snd (patch (snd (patch s)))) m ''createPoolCluster'') =
            Suc (Suc (fn_wraps f3))"
      using a p1 p2 b by simp
  qed
  show ?thesis using 1 2 3 by blast
qed

text \<open>
  On the stand-in module before any activation: unwrapping \<^verbatim>\<open>createPool\<close> and
  deactivating both leave the state as it is; one activation wraps
  \<^verbatim>\<open>createPool\<close>, and a second one wraps it again.
\<close>

theorem activation_stacks_unwrap_idempotent_witness:
  "\<not> isWrapped (get_prop init_state (Object 0) ''createPool'')
   \<and> \<not> enabled init_state
   \<and> \<not> isWrapped (get_prop init_state (moduleExports init_state) ''createConnection'')
   \<and> \<not> isWrapped (get_prop init_state (moduleExports init_state) ''createPool'')
   \<and> \<not> isWrapped (get_prop init_state (moduleExports init_state) ''createPoolCluster'')
   \<and> moduleExports init_state = Object 0
   \<and> heap init_state 0 ''createConnection'' = Function (Native 0)
   \<and> heap init_state 0 ''createPool'' = Function (Native 1)
   \<and> heap init_state 0 ''createPoolCluster'' = Function (Native 2)
   \<and> shimmer_unwrap (Object 0) ''createPool'' init_state = init_state
   \<and> unpatch init_state = init_state
   \<and> heap (snd (patch init_state)) 0 ''createPool'' =
       Function (Shimmed 1 (Prop 0 ''createPool'') (Native 1) (CreatePoolFn (Native 1)))
   \<and> wrap_count (heap (snd (patch (snd (patch init_state)))) 0 ''createPool'') = 2"
proof -
  have h: "\<not> isWrapped (get_prop init_state (Object 0) ''createPool'')"
      "\<not> enabled init_state"
      "\<not> isWrapped (get_prop init_state (moduleExports init_state) ''createConnection'')"
      "\<not> isWrapped (get_prop init_state (moduleExports init_state) ''createPool'')"
      "\<not> isWrapped (get_prop init_state (moduleExports init_state) ''createPoolCluster'')"
      "moduleExports init_state = Object 0"
      "heap init_state 0 ''createConnection'' = Function (Native 0)"
      "heap init_state 0 ''createPool'' = Function (Native 1)"
      "heap init_state 0 ''createPoolCluster'' = Function (Native 2)"
    by (simp_all add: init_state_def stub_heap_def get_prop_def)
  have n: "next_id init_state = 0" by (simp add: init_state_def)
  note th = activation_stacks_unwrap_idempotent [of init_state "Object 0" "''createPool''" 0
      "Native 0" "Native 1" "Native 2"]
  show ?thesis using th h n by simp
qed

end
